theory Spec2Isabelle
  imports Main
begin

section \<open>Lab Track: the store and the workflow of \<open>DatabaseManager\<close> (src/mainV10.py)\<close>

text \<open>
  \<open>DatabaseManager\<close> has two backends, chosen by \<open>self.use_mock\<close>. The in-process backend
  is the lists \<open>mock_inventory\<close>, \<open>mock_items\<close>, \<open>mock_students\<close>, \<open>mock_staff\<close>,
  \<open>mock_transactions\<close> and \<open>mock_transaction_items\<close>; it is embedded in full. The remote
  backend is a service reached through a client library that is not part of the
  repository: what a method sees of it is whether a call of \<open>.execute()\<close> returns (and
  what) or raises, and that is a parameter of the method's model.
  Python dictionaries with a fixed set of keys are records, the status strings are
  datatypes, identifiers are Python integers (\<open>int\<close>), and a naive \<open>datetime\<close> is the number
  of microseconds since 0001-01-01T00:00:00 (\<open>int\<close>); \<open>datetime.now()\<close> is a parameter of
  every operation that reads the clock.
\<close>

subsection \<open>Data model\<close>

datatype item_status = Available | Issued | Damaged

datatype trans_status = Active | Closed

record inventory =
  inv_id :: int
  inv_name :: string
  total_qty :: int
  course :: "string option"
  description :: "string option"

record item =
  i_id :: int
  serial_number :: string
  status :: item_status
  inventory_id :: int

record student =
  s_id :: int
  s_name :: string
  student_code :: string
  phone :: string
  email :: string

record staff =
  st_id :: int
  st_name :: string
  staff_code :: string

record transaction =
  t_id :: int
  t_student_id :: int
  t_issuer_id :: "int option"
  t_status :: trans_status
  created_at :: int
  issue_date :: int
  closed_at :: "int option"

record transaction_item =
  ti_id :: int
  ti_transaction_id :: int
  ti_item_id :: int

record db =
  mock_inventory :: "inventory list"
  mock_items :: "item list"
  mock_students :: "student list"
  mock_staff :: "staff list"
  mock_transactions :: "transaction list"
  mock_transaction_items :: "transaction_item list"

text \<open>The exceptions that the embedded code can raise.\<close>

datatype py_error = AttributeError | ValueError | TypeError | OverflowError

text \<open>One day in microseconds: \<open>timedelta(days=1)\<close>.\<close>

definition DAY_US :: int where
  "DAY_US = 86400000000"




text \<open>\<open>_init_mock_data\<close>: the fixture the in-process store starts from.\<close>

definition init_mock_data :: "int \<Rightarrow> db" where
  "init_mock_data now = \<lparr>
     mock_inventory = [
       \<lparr>inv_id = 1, inv_name = ''Arduino'', total_qty = 10, course = Some ''ECE101'', description = None\<rparr>,
       \<lparr>inv_id = 2, inv_name = ''Raspberry Pi'', total_qty = 5, course = Some ''CS201'', description = None\<rparr>,
       \<lparr>inv_id = 3, inv_name = ''Sensor'', total_qty = 20, course = Some ''ECE101'', description = None\<rparr>],
     mock_items = [
       \<lparr>i_id = 1, serial_number = ''ARD001'', status = Available, inventory_id = 1\<rparr>,
       \<lparr>i_id = 2, serial_number = ''ARD002'', status = Available, inventory_id = 1\<rparr>,
       \<lparr>i_id = 3, serial_number = ''ARD003'', status = Issued, inventory_id = 1\<rparr>,
       \<lparr>i_id = 4, serial_number = ''ARD004'', status = Damaged, inventory_id = 1\<rparr>,
       \<lparr>i_id = 5, serial_number = ''RPI001'', status = Available, inventory_id = 2\<rparr>,
       \<lparr>i_id = 6, serial_number = ''RPI002'', status = Available, inventory_id = 2\<rparr>,
       \<lparr>i_id = 7, serial_number = ''SEN001'', status = Available, inventory_id = 3\<rparr>],
     mock_students = [
       \<lparr>s_id = 1, s_name = ''John Doe'', student_code = ''STU001'', phone = ''555-0101'',
        email = ''john.doe@university.edu''\<rparr>,
       \<lparr>s_id = 2, s_name = ''Jane Smith'', student_code = ''STU002'', phone = ''555-0102'',
        email = ''jane.smith@university.edu''\<rparr>,
       \<lparr>s_id = 3, s_name = ''Bob Johnson'', student_code = ''STU003'', phone = ''555-0103'',
        email = ''bob.johnson@university.edu''\<rparr>],
     mock_staff = [
       \<lparr>st_id = 1, st_name = ''Dr. Sarah Chen'', staff_code = ''STAFF001''\<rparr>,
       \<lparr>st_id = 2, st_name = ''Prof. Michael Brown'', staff_code = ''STAFF002''\<rparr>,
       \<lparr>st_id = 3, st_name = ''Lab Assistant'', staff_code = ''STAFF003''\<rparr>],
     mock_transactions = [
       \<lparr>t_id = 1, t_student_id = 1, t_issuer_id = Some 1, t_status = Active,
        created_at = now, issue_date = now, closed_at = None\<rparr>,
       \<lparr>t_id = 2, t_student_id = 2, t_issuer_id = Some 2, t_status = Active,
        created_at = now - 10 * DAY_US, issue_date = now - 10 * DAY_US, closed_at = None\<rparr>],
     mock_transaction_items = [
       \<lparr>ti_id = 1, ti_transaction_id = 1, ti_item_id = 3\<rparr>,
       \<lparr>ti_id = 2, ti_transaction_id = 2, ti_item_id = 5\<rparr>]
   \<rparr>"

subsection \<open>Transaction workflow\<close>

text \<open>
  \<open>for item in self.mock_items: if item["id"] == item_id: item["status"] = ...; break\<close>:
  only the first item with the id is written; a missing id changes nothing.
\<close>

fun set_item_status :: "int \<Rightarrow> item_status \<Rightarrow> item list \<Rightarrow> item list" where
  "set_item_status iid st [] = []"
| "set_item_status iid st (x # xs) =
     (if i_id x = iid then x\<lparr>status := st\<rparr> # xs else x # set_item_status iid st xs)"

text \<open>
  \<open>for trans in self.mock_transactions: if trans["id"] == transaction_id: ...; break\<close>:
  the first transaction with the id gets status Closed and \<open>closed_at = now\<close>.
\<close>

fun close_transaction :: "int \<Rightarrow> int \<Rightarrow> transaction list \<Rightarrow> transaction list" where
  "close_transaction now tid [] = []"
| "close_transaction now tid (t # ts) =
     (if t_id t = tid then t\<lparr>t_status := Closed, closed_at := Some now\<rparr> # ts
      else t # close_transaction now tid ts)"

text \<open>
  One round of the loop of \<open>create_transaction\<close> over \<open>item_ids\<close>: append the
  line, then mark the first item with that id Issued.
\<close>

definition issue_one :: "int \<Rightarrow> db \<Rightarrow> int \<Rightarrow> db" where
  "issue_one transaction_id d item_id =
     d\<lparr>mock_transaction_items := mock_transaction_items d @
          [\<lparr>ti_id = int (length (mock_transaction_items d)) + 1,
            ti_transaction_id = transaction_id, ti_item_id = item_id\<rparr>],
       mock_items := set_item_status item_id Issued (mock_items d)\<rparr>"

text \<open>
  \<open>create_transaction\<close> (mock branch). \<open>if issuer_id:\<close> is Python truthiness: \<open>None\<close>
  and \<open>0\<close> both leave the key out. The method always returns the new id.
\<close>

definition create_transaction ::
  "int \<Rightarrow> db \<Rightarrow> int \<Rightarrow> int list \<Rightarrow> int option \<Rightarrow> int option \<times> db" where
  "create_transaction now d student_id item_ids issuer_id =
     (let transaction_id = int (length (mock_transactions d)) + 1;
          transaction_data = \<lparr>t_id = transaction_id, t_student_id = student_id,
             t_issuer_id = (case issuer_id of None \<Rightarrow> None
                            | Some i \<Rightarrow> if i \<noteq> 0 then Some i else None),
             t_status = Active, created_at = now, issue_date = now, closed_at = None\<rparr>;
          d1 = d\<lparr>mock_transactions := mock_transactions d @ [transaction_data]\<rparr>
      in (Some transaction_id, foldl (issue_one transaction_id) d1 item_ids))"

text \<open>
  The client of the remote backend: \<open>raises k\<close> says that the k-th call of
  \<open>.execute()\<close> which a method makes raises an exception (counting from 0).
\<close>

type_synonym client = "nat \<Rightarrow> bool"

text \<open>
  The \<open>else\<close> block of \<open>create_transaction\<close> (lines 313 to 344), all of it inside
  \<open>try\<close>: call 0 inserts the transaction, \<open>trans_result.data[0]["id"]\<close> reads the id
  out of the answer (\<open>answer_id\<close>; \<open>None\<close> when the answer has no such row, which
  raises), and each item id costs two more calls, one for the line and one for the item.
  \<open>except Exception\<close> returns \<open>None\<close>.
\<close>

definition create_transaction_remote :: "client \<Rightarrow> int option \<Rightarrow> int list \<Rightarrow> int option" where
  "create_transaction_remote raises answer_id item_ids =
     (if raises 0 then None
      else (case answer_id of
              None \<Rightarrow> None
            | Some transaction_id \<Rightarrow>
                if list_ex raises [1..<Suc (2 * length item_ids)] then None
                else Some transaction_id))"

text \<open>
  \<open>create_transaction\<close> on either backend. The lists of the in-process backend play no
  part in the \<open>else\<close> block and are handed back as they are.
\<close>

definition create_transaction_on ::
  "bool \<Rightarrow> client \<Rightarrow> int option \<Rightarrow> int \<Rightarrow> db \<Rightarrow> int \<Rightarrow> int list \<Rightarrow> int option
     \<Rightarrow> int option \<times> db" where
  "create_transaction_on use_mock raises answer_id now d student_id item_ids issuer_id =
     (if use_mock then create_transaction now d student_id item_ids issuer_id
      else (create_transaction_remote raises answer_id item_ids, d))"

text \<open>The \<open>if self.use_mock:\<close> block of \<open>return_item\<close> (lines 611 to 625).\<close>

definition return_item_mock :: "int \<Rightarrow> db \<Rightarrow> int \<Rightarrow> int \<Rightarrow> bool \<times> db" where
  "return_item_mock now d item_id transaction_id =
     (True, d\<lparr>mock_items := set_item_status item_id Available (mock_items d),
              mock_transactions := close_transaction now transaction_id (mock_transactions d)\<rparr>)"

text \<open>
  \<open>return_item\<close>. The \<open>else\<close> block updates the item and then the transaction through
  the client, inside \<open>try\<close>; \<open>except Exception\<close> returns False. The lists of the
  in-process backend play no part there and are handed back as they are.
\<close>

definition return_item :: "bool \<Rightarrow> client \<Rightarrow> int \<Rightarrow> db \<Rightarrow> int \<Rightarrow> int \<Rightarrow> bool \<times> db" where
  "return_item use_mock raises now d item_id transaction_id =
     (if use_mock then return_item_mock now d item_id transaction_id
      else if raises 0 then (False, d)
      else if raises 1 then (False, d)
      else (True, d))"

text \<open>The \<open>if self.use_mock:\<close> block of \<open>report_damaged\<close> (lines 655 to 669).\<close>

definition report_damaged_mock :: "int \<Rightarrow> db \<Rightarrow> int \<Rightarrow> int \<Rightarrow> bool \<times> db" where
  "report_damaged_mock now d item_id transaction_id =
     (True, d\<lparr>mock_items := set_item_status item_id Damaged (mock_items d),
              mock_transactions := close_transaction now transaction_id (mock_transactions d)\<rparr>)"

definition report_damaged :: "bool \<Rightarrow> client \<Rightarrow> int \<Rightarrow> db \<Rightarrow> int \<Rightarrow> int \<Rightarrow> bool \<times> db" where
  "report_damaged use_mock raises now d item_id transaction_id =
     (if use_mock then report_damaged_mock now d item_id transaction_id
      else if raises 0 then (False, d)
      else if raises 1 then (False, d)
      else (True, d))"

text \<open>
  \<open>delete_student\<close>. In-process: a list comprehension, then \<open>return True\<close>. Remote: one
  delete through the client inside \<open>try\<close>; \<open>except Exception\<close> returns False.
\<close>

definition delete_student_mock :: "db \<Rightarrow> int \<Rightarrow> bool \<times> db" where
  "delete_student_mock d student_id =
     (True, d\<lparr>mock_students := filter (\<lambda>s. s_id s \<noteq> student_id) (mock_students d)\<rparr>)"

definition delete_student :: "bool \<Rightarrow> client \<Rightarrow> db \<Rightarrow> int \<Rightarrow> bool \<times> db" where
  "delete_student use_mock raises d student_id =
     (if use_mock then delete_student_mock d student_id
      else if raises 0 then (False, d)
      else (True, d))"

subsection \<open>The issue view: cart and finalisation\<close>

text \<open>
  The handlers of \<open>LabApp\<close> that stand between the user and \<open>create_transaction\<close>.
  A popup is a value; the user's answer to the warning popup (Confirm Issue or Cancel) is
  the parameter \<open>confirm\<close>.
\<close>

datatype popup =
  ErrorPopup string string
  | WarningPopup item
  | SuccessPopup int

text \<open>\<open>_add_item_to_cart\<close>: refuses an id that is already in the cart.\<close>

definition add_item_to_cart :: "item \<Rightarrow> item list \<Rightarrow> popup list \<times> item list" where
  "add_item_to_cart itm cart_items =
     (if \<exists>cart_item \<in> set cart_items. i_id cart_item = i_id itm
      then ([ErrorPopup ''Item already in cart!'' ''Duplicate''], cart_items)
      else ([], cart_items @ [itm]))"

text \<open>
  \<open>_handle_serial_number\<close>, with \<open>_show_warning\<close> and \<open>_confirm_damaged_issue\<close>
  behind the Damaged branch. The store writes no status other than the three of
  \<^typ>\<open>item_status\<close>, so the final \<open>else\<close> of the source (unknown status) has no case.
\<close>

definition handle_serial_number :: "bool \<Rightarrow> item \<Rightarrow> item list \<Rightarrow> popup list \<times> item list" where
  "handle_serial_number confirm itm cart_items =
     (case status itm of
        Issued \<Rightarrow> ([ErrorPopup ''Item already issued!'' ''Error''], cart_items)
      | Damaged \<Rightarrow>
          (if confirm
           then (case add_item_to_cart itm cart_items of (ps, c) \<Rightarrow> (WarningPopup itm # ps, c))
           else ([WarningPopup itm], cart_items))
      | Available \<Rightarrow> add_item_to_cart itm cart_items)"

record issue_view =
  cart_items :: "item list"
  current_issuer_id :: "int option"
  issuer_dropdown :: "string option"
  student_dropdown :: string

text \<open>The dropdown labels: \<open>f"{name} ({code})"\<close>.\<close>

definition dropdown_label :: "string \<Rightarrow> string \<Rightarrow> string" where
  "dropdown_label name code = name @ '' ('' @ code @ '')''"

text \<open>
  The issuer of \<open>_finalize_issue\<close>: the global selection when it is truthy, else the staff
  member whose label is the value of the view's own dropdown, when there is one.
\<close>

definition resolve_issuer :: "db \<Rightarrow> issue_view \<Rightarrow> int option" where
  "resolve_issuer d v =
     (case current_issuer_id v of
        Some i \<Rightarrow> if i \<noteq> 0 then Some i else
          (case issuer_dropdown v of
             None \<Rightarrow> None
           | Some issuer_value \<Rightarrow>
               if issuer_value = [] then None
               else map_option st_id
                 (find (\<lambda>s. dropdown_label (st_name s) (staff_code s) = issuer_value) (mock_staff d)))
      | None \<Rightarrow>
          (case issuer_dropdown v of
             None \<Rightarrow> None
           | Some issuer_value \<Rightarrow>
               if issuer_value = [] then None
               else map_option st_id
                 (find (\<lambda>s. dropdown_label (st_name s) (staff_code s) = issuer_value) (mock_staff d))))"

text \<open>
  \<open>_finalize_issue\<close>: every early \<open>return\<close> of the source is a branch that leaves the
  store as it is. The cart is emptied later, by the OK button of the success popup.
\<close>

definition finalize_issue :: "int \<Rightarrow> db \<Rightarrow> issue_view \<Rightarrow> popup \<times> db" where
  "finalize_issue now d v =
     (if cart_items v = [] then
        (ErrorPopup ''Cart is empty. Add items before finalizing.'' ''Empty Cart'', d)
      else
        (case resolve_issuer d v of
           None \<Rightarrow>
             (ErrorPopup ''Please select an issuer (staff member) from the top right selector.''
                ''No Issuer Selected'', d)
         | Some issuer_id \<Rightarrow>
             if issuer_id = 0 then
               (ErrorPopup ''Please select an issuer (staff member) from the top right selector.''
                  ''No Issuer Selected'', d)
             else if student_dropdown v = [] then
               (ErrorPopup ''Please select a student.'' ''No Student Selected'', d)
             else
               (case find (\<lambda>s. dropdown_label (s_name s) (student_code s) = student_dropdown v)
                       (mock_students d) of
                  None \<Rightarrow> (ErrorPopup ''Invalid student selection.'' ''Error'', d)
                | Some selected_student \<Rightarrow>
                    (case create_transaction now d (s_id selected_student)
                            (map i_id (cart_items v)) (Some issuer_id) of
                       (Some transaction_id, d') \<Rightarrow>
                         if transaction_id \<noteq> 0 then (SuccessPopup transaction_id, d')
                         else (ErrorPopup ''Failed to create transaction. Please try again.''
                                 ''Error'', d')
                     | (None, d') \<Rightarrow>
                         (ErrorPopup ''Failed to create transaction. Please try again.''
                            ''Error'', d')))))"

subsection \<open>Queries\<close>

record loan =
  loan_item :: item
  loan_inventory :: "inventory option"
  loan_transaction_id :: int
  loan_transaction_item_id :: int

text \<open>
  \<open>get_active_loans\<close> (mock branch): three nested loops without \<open>break\<close>; the inventory
  is \<open>next(..., None)\<close>, the first match.
\<close>

definition get_active_loans :: "db \<Rightarrow> int \<Rightarrow> loan list" where
  "get_active_loans d student_id =
     concat (map (\<lambda>tr.
       if t_student_id tr = student_id \<and> t_status tr = Active then
         concat (map (\<lambda>trans_item.
           if ti_transaction_id trans_item = t_id tr then
             concat (map (\<lambda>itm.
               if i_id itm = ti_item_id trans_item then
                 [\<lparr>loan_item = itm,
                   loan_inventory = find (\<lambda>inv. inv_id inv = inventory_id itm) (mock_inventory d),
                   loan_transaction_id = t_id tr,
                   loan_transaction_item_id = ti_id trans_item\<rparr>]
               else []) (mock_items d))
           else []) (mock_transaction_items d))
       else []) (mock_transactions d))"












subsection \<open>Python string operations used by the bulk import\<close>

text \<open>
  A character is its code point, and the strings of the model are the Python strings
  whose code points are below 256. \<open>str.strip()\<close> removes the characters for which
  \<open>str.isspace\<close> holds: below 256 these are 9 to 13, 28 to 32, 133 and 160.
  \<open>replace(' ', '')\<close> removes the space character only. \<open>str.upper()\<close> is embedded
  for ASCII strings, where it maps a to z onto A to Z and nothing else; every theorem
  that depends on it assumes that the strings it uppercases are ASCII.
\<close>

definition is_ascii :: "string \<Rightarrow> bool" where
  "is_ascii s = (\<forall>c \<in> set s. (of_char c :: nat) < 128)"

definition is_space :: "char \<Rightarrow> bool" where
  "is_space c =
     (let n = (of_char c :: nat)
      in (9 \<le> n \<and> n \<le> 13) \<or> (28 \<le> n \<and> n \<le> 32) \<or> n = 133 \<or> n = 160)"

definition strip :: "string \<Rightarrow> string" where
  "strip s = rev (dropWhile is_space (rev (dropWhile is_space s)))"

definition upper_char :: "char \<Rightarrow> char" where
  "upper_char c = (let n = (of_char c :: nat) in if 97 \<le> n \<and> n \<le> 122 then char_of (n - 32) else c)"

definition upper :: "string \<Rightarrow> string" where
  "upper s = map upper_char s"

definition remove_spaces :: "string \<Rightarrow> string" where
  "remove_spaces s = filter (\<lambda>c. c \<noteq> CHR '' '') s"

definition ljust :: "nat \<Rightarrow> char \<Rightarrow> string \<Rightarrow> string" where
  "ljust w fillchar s = s @ replicate (w - length s) fillchar"

definition startswith :: "string \<Rightarrow> string \<Rightarrow> bool" where
  "startswith s p = (take (length p) s = p)"

text \<open>
  \<open>int(s)\<close> on a string. Whitespace around the number is skipped, but not the same
  whitespace as \<open>strip\<close> removes: the codes 9 to 13 and 32, and above 126 the
  characters that \<open>str.isspace\<close> accepts (133 and 160); the separators 28 to 31 are
  not skipped. Then one sign is allowed, then decimal digits, where single underscores
  may stand between two digits. A number of more than 4300 digits is refused (the limit
  of \<open>sys.get_int_max_str_digits()\<close>). Every refusal raises \<open>ValueError\<close>, which is
  \<open>None\<close> here.
\<close>

definition MAX_STR_DIGITS :: nat where
  "MAX_STR_DIGITS = 4300"

definition is_int_space :: "char \<Rightarrow> bool" where
  "is_int_space c =
     (let n = (of_char c :: nat) in (9 \<le> n \<and> n \<le> 13) \<or> n = 32 \<or> n = 133 \<or> n = 160)"

definition is_digit :: "char \<Rightarrow> bool" where
  "is_digit c = (let n = (of_char c :: nat) in 48 \<le> n \<and> n \<le> 57)"

definition digit_val :: "char \<Rightarrow> nat" where
  "digit_val c = of_char c - 48"

fun parse_digits :: "nat \<Rightarrow> string \<Rightarrow> nat option" where
  "parse_digits acc [] = Some acc"
| "parse_digits acc [c] = (if is_digit c then Some (acc * 10 + digit_val c) else None)"
| "parse_digits acc (c # d # cs) =
     (if is_digit c then parse_digits (acc * 10 + digit_val c) (d # cs)
      else if c = CHR ''_'' \<and> is_digit d then parse_digits (acc * 10 + digit_val d) cs
      else None)"

definition py_int :: "string \<Rightarrow> int option" where
  "py_int s =
     (case rev (dropWhile is_int_space (rev (dropWhile is_int_space s))) of
        [] \<Rightarrow> None
      | c # r \<Rightarrow>
          (let neg = (c = CHR ''-'');
               body = (if c = CHR ''-'' \<or> c = CHR ''+'' then r else c # r)
           in case body of
                [] \<Rightarrow> None
              | b # bs \<Rightarrow>
                  if is_digit b \<and> length (filter is_digit body) \<le> MAX_STR_DIGITS
                  then map_option (\<lambda>v. if neg then - int v else int v)
                         (parse_digits (digit_val b) bs)
                  else None))"

text \<open>
  \<open>f"{n:03d}"\<close>: decimal, padded with zeros to a width of at least three, sign included.
  Writing an integer of more than 4300 digits raises \<open>ValueError\<close>.
\<close>

definition digit_char :: "nat \<Rightarrow> char" where
  "digit_char n = char_of (48 + n)"

fun digits :: "nat \<Rightarrow> string" where
  "digits n = (if n < 10 then [digit_char n] else digits (n div 10) @ [digit_char (n mod 10)])"

declare digits.simps [simp del]

definition zfill :: "nat \<Rightarrow> string \<Rightarrow> string" where
  "zfill w s = replicate (w - length s) CHR ''0'' @ s"

definition fmt_03d :: "int \<Rightarrow> py_error + string" where
  "fmt_03d n =
     (if MAX_STR_DIGITS < length (digits (nat \<bar>n\<bar>)) then Inl ValueError
      else if n < 0 then Inr (CHR ''-'' # zfill 2 (digits (nat (- n))))
      else Inr (zfill 3 (digits (nat n))))"

subsection \<open>Bulk import\<close>

text \<open>
  A row of \<open>csv_data\<close> is a dictionary whose values are whatever the caller put there;
  \<open>_handle_csv_import\<close> passes the records of a pandas data frame, in which a cell is a
  string, an integer or a float, and an empty cell is the float NaN. A finite float is
  given by its integer part, which is all that \<open>int(...)\<close> reads of it. Each of the
  three keys may be absent (\<open>row.get(key, default)\<close>).
\<close>

datatype cell = CStr string | CInt int | CFloat int | CNaN | CInf | CNone

record csv_row =
  row_component_name :: "cell option"
  row_quantity :: "cell option"
  row_description :: "cell option"

text \<open>
  \<open>row.get(key, '').strip()\<close>: only a string has \<open>strip\<close>; on any other value the
  attribute lookup raises \<open>AttributeError\<close>.
\<close>

definition cell_strip :: "cell option \<Rightarrow> py_error + string" where
  "cell_strip c =
     (case c of
        None \<Rightarrow> Inr []
      | Some (CStr s) \<Rightarrow> Inr (strip s)
      | Some (CInt n) \<Rightarrow> Inl AttributeError
      | Some (CFloat n) \<Rightarrow> Inl AttributeError
      | Some CNaN \<Rightarrow> Inl AttributeError
      | Some CInf \<Rightarrow> Inl AttributeError
      | Some CNone \<Rightarrow> Inl AttributeError)"

text \<open>
  \<open>int(row.get('Quantity', 0))\<close>: the identity on an integer, the parse on a string,
  truncation on a finite float; NaN raises \<open>ValueError\<close>, an infinity
  \<open>OverflowError\<close>, \<open>None\<close> \<open>TypeError\<close>.
\<close>

definition cell_int :: "cell option \<Rightarrow> py_error + int" where
  "cell_int c =
     (case c of
        None \<Rightarrow> Inr 0
      | Some (CStr s) \<Rightarrow> (case py_int s of None \<Rightarrow> Inl ValueError | Some n \<Rightarrow> Inr n)
      | Some (CInt n) \<Rightarrow> Inr n
      | Some (CFloat n) \<Rightarrow> Inr n
      | Some CNaN \<Rightarrow> Inl ValueError
      | Some CInf \<Rightarrow> Inl OverflowError
      | Some CNone \<Rightarrow> Inl TypeError)"

text \<open>Lines 946 to 948 of \<open>bulk_import_inventory\<close>: the serial prefix of a component name.\<close>

definition serial_prefix :: "string \<Rightarrow> string" where
  "serial_prefix component_name =
     (let prefix = remove_spaces (upper (take 3 component_name))
      in if length prefix < 3 then ljust 3 CHR ''X'' prefix else prefix)"

text \<open>
  Lines 951 to 960: the highest number already used. The bare \<open>except: pass\<close> skips a
  suffix that \<open>int\<close> rejects.
\<close>

definition max_serial_step :: "int \<Rightarrow> string \<Rightarrow> int \<Rightarrow> item \<Rightarrow> int" where
  "max_serial_step inventory_no prefix max_num itm =
     (if inventory_id itm = inventory_no then
        (if startswith (serial_number itm) prefix then
           (case py_int (drop (length prefix) (serial_number itm)) of
              Some num \<Rightarrow> max max_num num
            | None \<Rightarrow> max_num)
         else max_num)
      else max_num)"

definition max_serial_num :: "int \<Rightarrow> string \<Rightarrow> item list \<Rightarrow> int" where
  "max_serial_num inventory_no prefix items = foldl (max_serial_step inventory_no prefix) 0 items"

text \<open>
  Lines 963 to 971: \<open>for i in range(quantity)\<close>, over the values of \<open>i\<close> still to
  come. When the format raises, the loop ends there with the items appended so far.
\<close>

fun append_items ::
  "int \<Rightarrow> string \<Rightarrow> int \<Rightarrow> item list \<Rightarrow> nat list \<Rightarrow> py_error option \<times> item list" where
  "append_items inventory_no prefix max_num items [] = (None, items)"
| "append_items inventory_no prefix max_num items (i # rest) =
     (case fmt_03d (max_num + int i + 1) of
        Inl e \<Rightarrow> (Some e, items)
      | Inr number \<Rightarrow>
          append_items inventory_no prefix max_num
            (items @ [\<lparr>i_id = int (length items) + 1,
                       serial_number = prefix @ number,
                       status = Available, inventory_id = inventory_no\<rparr>]) rest)"

text \<open>\<open>existing_inv["total_qty"] += quantity\<close> on the first inventory with the name.\<close>

fun add_total_qty :: "string \<Rightarrow> int \<Rightarrow> inventory list \<Rightarrow> inventory list" where
  "add_total_qty component_name quantity [] = []"
| "add_total_qty component_name quantity (iv # invs) =
     (if upper (inv_name iv) = upper component_name
      then iv\<lparr>total_qty := total_qty iv + quantity\<rparr> # invs
      else iv # add_total_qty component_name quantity invs)"

text \<open>
  The part of the loop body after the skip test (lines 897 to 971), for a stripped name,
  a quantity and a stripped description: the store and the two counters
  \<open>inventory_created\<close> and \<open>items_created\<close> afterwards, with the exception if the loop
  over the new items raised one.
\<close>

definition book_row ::
  "db \<times> int \<times> int \<Rightarrow> string \<Rightarrow> int \<Rightarrow> string \<Rightarrow> py_error option \<times> (db \<times> int \<times> int)" where
  "book_row acc component_name quantity descr =
     (case acc of (d, inventory_created, items_created) \<Rightarrow>
        let existing_inv = find (\<lambda>iv. upper (inv_name iv) = upper component_name)
                             (mock_inventory d);
            inventory_no = (case existing_inv of
                     Some e \<Rightarrow> inv_id e
                   | None \<Rightarrow> int (length (mock_inventory d)) + 1);
            inventories = (case existing_inv of
                     Some e \<Rightarrow> add_total_qty component_name quantity (mock_inventory d)
                   | None \<Rightarrow> mock_inventory d @
                       [\<lparr>inv_id = inventory_no, inv_name = component_name, total_qty = quantity,
                         course = None, description = Some descr\<rparr>]);
            created = (case existing_inv of
                     Some e \<Rightarrow> inventory_created
                   | None \<Rightarrow> inventory_created + 1);
            prefix = serial_prefix component_name;
            max_num = max_serial_num inventory_no prefix (mock_items d);
            res = append_items inventory_no prefix max_num (mock_items d) [0..<nat quantity]
        in (fst res,
            (d\<lparr>mock_inventory := inventories, mock_items := snd res\<rparr>,
             created,
             items_created + (int (length (snd res)) - int (length (mock_items d))))))"

text \<open>
  The body of \<open>for row in csv_data\<close> (in-process branch, lines 889 to 971). The three
  conversions of lines 890 to 892 come first, in this order and outside any \<open>try\<close>, so
  an exception of any of them leaves the loop with the store as it was before the row.
\<close>

definition import_row ::
  "db \<times> int \<times> int \<Rightarrow> csv_row \<Rightarrow> py_error option \<times> (db \<times> int \<times> int)" where
  "import_row acc row =
     (case cell_strip (row_component_name row) of
        Inl e \<Rightarrow> (Some e, acc)
      | Inr component_name \<Rightarrow>
          (case cell_int (row_quantity row) of
             Inl e \<Rightarrow> (Some e, acc)
           | Inr quantity \<Rightarrow>
               (case cell_strip (row_description row) of
                  Inl e \<Rightarrow> (Some e, acc)
                | Inr descr \<Rightarrow>
                    if component_name = [] \<or> quantity \<le> 0 then (None, acc)
                    else book_row acc component_name quantity descr)))"

text \<open>The loop over the rows: an exception ends it.\<close>

fun import_rows ::
  "db \<times> int \<times> int \<Rightarrow> csv_row list \<Rightarrow> py_error option \<times> (db \<times> int \<times> int)" where
  "import_rows acc [] = (None, acc)"
| "import_rows acc (row # rows) =
     (case import_row acc row of
        (Some e, acc') \<Rightarrow> (Some e, acc')
      | (None, acc') \<Rightarrow> import_rows acc' rows)"

text \<open>
  \<open>bulk_import_inventory\<close> (in-process branch): the two counts, or the exception that
  left the method, and the store as the call leaves it in either case.
\<close>

definition bulk_import_inventory :: "db \<Rightarrow> csv_row list \<Rightarrow> (py_error + int \<times> int) \<times> db" where
  "bulk_import_inventory d csv_data =
     (case import_rows (d, 0, 0) csv_data of
        (None, (d', inventory_created, items_created)) \<Rightarrow>
          (Inr (inventory_created, items_created), d')
      | (Some e, (d', inventory_created, items_created)) \<Rightarrow> (Inl e, d'))"

subsection \<open>What the specification says, for comparison with the code\<close>

text \<open>
  The prefix as the specification words it: the first three characters of the name after
  uppercasing and removing whitespace, padded on the right with X.
\<close>

definition remove_whitespace :: "string \<Rightarrow> string" where
  "remove_whitespace s = filter (\<lambda>c. \<not> is_space c) s"

definition spec_serial_prefix :: "string \<Rightarrow> string" where
  "spec_serial_prefix component_name =
     ljust 3 CHR ''X'' (take 3 (remove_whitespace (upper component_name)))"

text \<open>
  The numbers the specification takes the maximum of: the parsed suffixes of the items of
  one inventory whose serial starts with the prefix, unparsable ones left out; and the
  maximum itself, which is 0 if there is none.
\<close>

definition parsed_suffixes :: "int \<Rightarrow> string \<Rightarrow> item list \<Rightarrow> int list" where
  "parsed_suffixes inventory_no prefix items =
     concat (map (\<lambda>itm.
       if inventory_id itm = inventory_no \<and> startswith (serial_number itm) prefix
       then (case py_int (drop (length prefix) (serial_number itm)) of
               None \<Rightarrow> [] | Some num \<Rightarrow> [num])
       else []) items)"

definition spec_max_suffix :: "int \<Rightarrow> string \<Rightarrow> item list \<Rightarrow> int" where
  "spec_max_suffix inventory_no prefix items =
     (if parsed_suffixes inventory_no prefix items = [] then 0
      else Max (set (parsed_suffixes inventory_no prefix items)))"

text \<open>The number a string of decimal digits denotes, read from the left.\<close>

definition dec_value :: "nat \<Rightarrow> string \<Rightarrow> nat" where
  "dec_value acc s = foldl (\<lambda>a c. a * 10 + digit_val c) acc s"

text \<open>The inventory a row with the given (stripped) name is booked on.\<close>

definition target_inventory :: "db \<Rightarrow> string \<Rightarrow> int" where
  "target_inventory d component_name =
     (case find (\<lambda>iv. upper (inv_name iv) = upper component_name) (mock_inventory d) of
        Some e \<Rightarrow> inv_id e
      | None \<Rightarrow> int (length (mock_inventory d)) + 1)"

text \<open>
  A store whose only item is ARD-5, of the Arduino inventory: the suffix parses to the
  negative number -5.
\<close>

definition store_negative_suffix :: db where
  "store_negative_suffix =
     (init_mock_data 0)\<lparr>mock_items :=
        [\<lparr>i_id = 1, serial_number = ''ARD-5'', status = Available, inventory_id = 1\<rparr>]\<rparr>"




subsection \<open>The status invariant\<close>

text \<open>A line of an Active transaction.\<close>

definition line_active :: "transaction list \<Rightarrow> transaction_item \<Rightarrow> bool" where
  "line_active ts l =
     (\<exists>tr \<in> set ts. t_id tr = ti_transaction_id l \<and> t_status tr = Active)"

text \<open>The lines that reference an item and belong to an Active transaction.\<close>

definition active_refs :: "db \<Rightarrow> int \<Rightarrow> transaction_item list" where
  "active_refs d iid =
     filter (\<lambda>l. ti_item_id l = iid \<and> line_active (mock_transactions d) l)
       (mock_transaction_items d)"

text \<open>The invariant of the data model: Issued if and only if exactly one such line.\<close>

definition issued_iff_one_active_line :: "db \<Rightarrow> bool" where
  "issued_iff_one_active_line d =
     (\<forall>itm \<in> set (mock_items d). (status itm = Issued) = (length (active_refs d (i_id itm)) = 1))"

text \<open>Its inductive form: an item that is not Issued has no such line at all.\<close>

definition lines_match_status :: "db \<Rightarrow> bool" where
  "lines_match_status d =
     (\<forall>itm \<in> set (mock_items d).
        length (active_refs d (i_id itm)) = (if status itm = Issued then 1 else 0))"

text \<open>
  Identifiers as the store hands them out (\<open>len(...) + 1\<close> on lists that only grow):
  the k-th item and the k-th transaction have id k, and every line names an existing item
  and an existing transaction.
\<close>

definition ids_by_position :: "db \<Rightarrow> bool" where
  "ids_by_position d =
     (map i_id (mock_items d) = map int [1..<Suc (length (mock_items d))]
      \<and> map t_id (mock_transactions d) = map int [1..<Suc (length (mock_transactions d))]
      \<and> (\<forall>l \<in> set (mock_transaction_items d).
            1 \<le> ti_item_id l \<and> ti_item_id l \<le> int (length (mock_items d))
            \<and> 1 \<le> ti_transaction_id l \<and> ti_transaction_id l \<le> int (length (mock_transactions d))))"

text \<open>Both together: the condition under which the operations are shown to keep the invariant.\<close>

definition store_consistent :: "db \<Rightarrow> bool" where
  "store_consistent d = (ids_by_position d \<and> lines_match_status d)"

text \<open>
  The loan rows the returns view acts on when a transaction has a single item: the
  transaction is Active, it has a line, and all its lines are for this item.
\<close>

definition only_line_of :: "db \<Rightarrow> int \<Rightarrow> int \<Rightarrow> bool" where
  "only_line_of d iid tid =
     ((\<exists>tr \<in> set (mock_transactions d). t_id tr = tid \<and> t_status tr = Active)
      \<and> (\<exists>l \<in> set (mock_transaction_items d). ti_transaction_id l = tid)
      \<and> (\<forall>l \<in> set (mock_transaction_items d). ti_transaction_id l = tid \<longrightarrow> ti_item_id l = iid))"

text \<open>
  Two stores reached from the fixture: RPI001 returned (which closes transaction 2), and
  then ARD001 and ARD002 issued together to student 1 as transaction 3.
\<close>

definition store_after_return :: db where
  "store_after_return = snd (return_item_mock 1 (init_mock_data 0) 5 2)"

definition store_two_item_loan :: db where
  "store_two_item_loan = snd (create_transaction 2 store_after_return 1 [1, 2] (Some 1))"

text \<open>The fixture cut down to its first three items, ARD001 to ARD003.\<close>

definition store_three_arduinos :: db where
  "store_three_arduinos = (init_mock_data 0)\<lparr>mock_items := take 3 (mock_items (init_mock_data 0))\<rparr>"

section \<open>Verification\<close>

subsection \<open>Writing one item, closing one transaction\<close>

lemma find_set_item_status:
  "find (\<lambda>x. i_id x = iid) (set_item_status iid st xs) =
     map_option (\<lambda>x. x\<lparr>status := st\<rparr>) (find (\<lambda>x. i_id x = iid) xs)"
  by (induction xs) auto

lemma set_item_status_absent:
  "iid \<notin> i_id ` set xs \<Longrightarrow> set_item_status iid st xs = xs"
  by (induction xs) auto

lemma find_close_transaction:
  "find (\<lambda>x. t_id x = tid) (close_transaction now tid ts) =
     map_option (\<lambda>t. t\<lparr>t_status := Closed, closed_at := Some now\<rparr>) (find (\<lambda>x. t_id x = tid) ts)"
  by (induction ts) auto

lemma close_transaction_absent:
  "tid \<notin> t_id ` set ts \<Longrightarrow> close_transaction now tid ts = ts"
  by (induction ts) auto

lemma map_i_id_set_item_status: "map i_id (set_item_status iid st xs) = map i_id xs"
  by (induction xs) auto

lemma map_t_id_close_transaction: "map t_id (close_transaction now tid ts) = map t_id ts"
  by (induction ts) auto

lemma length_set_item_status: "length (set_item_status iid st xs) = length xs"
  by (induction xs) auto

lemma length_close_transaction: "length (close_transaction now tid ts) = length ts"
  by (induction ts) auto

subsection \<open>Return and damage report\<close>

lemma filter_other_set_item_status:
  "j \<noteq> iid \<Longrightarrow> filter (\<lambda>x. i_id x = j) (set_item_status iid st xs) = filter (\<lambda>x. i_id x = j) xs"
  by (induction xs) auto

lemma filter_other_close_transaction:
  "j \<noteq> tid \<Longrightarrow>
     filter (\<lambda>x. t_id x = j) (close_transaction now tid ts) = filter (\<lambda>x. t_id x = j) ts"
  by (induction ts) auto

lemma get_active_loans_active:
  "l \<in> set (get_active_loans d sid) \<Longrightarrow>
     \<exists>tr \<in> set (mock_transactions d). t_id tr = loan_transaction_id l \<and> t_status tr = Active
        \<and> t_student_id tr = sid"
  by (auto simp: get_active_loans_def split: if_splits)

lemma return_item_in_process [simp]:
  "return_item True raises now d iid tid = return_item_mock now d iid tid"
  by (simp add: return_item_def)

lemma report_damaged_in_process [simp]:
  "report_damaged True raises now d iid tid = report_damaged_mock now d iid tid"
  by (simp add: report_damaged_def)

lemma return_item_remote:
  "return_item False raises now d iid tid = (\<not> raises 0 \<and> \<not> raises 1, d)"
  by (simp add: return_item_def)

lemma delete_student_in_process [simp]:
  "delete_student True raises d sid = delete_student_mock d sid"
  by (simp add: delete_student_def)

lemma delete_student_remote:
  "delete_student False raises d sid = (\<not> raises 0, d)"
  by (simp add: delete_student_def)

text \<open>
  Claim C10. On the in-process store (lines 611 to 625 and 655 to 669), \<open>return_item\<close>
  and \<open>report_damaged\<close> write the item and the transaction independently of each other
  and without reading the transaction lines: the items after the call do not depend on
  the transactions, the lines or the transaction id given, and the transactions after the
  call do not depend on the items, the lines or the item id given. Whatever the lines
  say, the first item with the given id becomes Available (Damaged for a damage report),
  the first transaction with the given id becomes Closed with \<open>closed_at = now\<close>, and
  the lines themselves are left as they were. Both calls report success (True) on every
  input; when neither id exists the store is returned as it was, still with True.
\<close>

theorem return_and_damage_ignore_links:
  "fst (return_item True raises now d iid tid) = True
   \<and> fst (report_damaged True raises now d iid tid) = True
   \<and> mock_items (snd (return_item True raises now
         (d\<lparr>mock_transactions := ts, mock_transaction_items := ls\<rparr>) iid tid'))
       = mock_items (snd (return_item True raises now d iid tid))
   \<and> mock_items (snd (report_damaged True raises now
         (d\<lparr>mock_transactions := ts, mock_transaction_items := ls\<rparr>) iid tid'))
       = mock_items (snd (report_damaged True raises now d iid tid))
   \<and> mock_transactions (snd (return_item True raises now
         (d\<lparr>mock_items := is, mock_transaction_items := ls\<rparr>) iid' tid))
       = mock_transactions (snd (return_item True raises now d iid tid))
   \<and> mock_transactions (snd (report_damaged True raises now
         (d\<lparr>mock_items := is, mock_transaction_items := ls\<rparr>) iid' tid))
       = mock_transactions (snd (report_damaged True raises now d iid tid))
   \<and> find (\<lambda>x. i_id x = iid) (mock_items (snd (return_item True raises now d iid tid)))
       = map_option (\<lambda>x. x\<lparr>status := Available\<rparr>) (find (\<lambda>x. i_id x = iid) (mock_items d))
   \<and> find (\<lambda>x. i_id x = iid) (mock_items (snd (report_damaged True raises now d iid tid)))
       = map_option (\<lambda>x. x\<lparr>status := Damaged\<rparr>) (find (\<lambda>x. i_id x = iid) (mock_items d))
   \<and> find (\<lambda>x. t_id x = tid) (mock_transactions (snd (return_item True raises now d iid tid)))
       = map_option (\<lambda>t. t\<lparr>t_status := Closed, closed_at := Some now\<rparr>)
           (find (\<lambda>x. t_id x = tid) (mock_transactions d))
   \<and> find (\<lambda>x. t_id x = tid) (mock_transactions (snd (report_damaged True raises now d iid tid)))
       = map_option (\<lambda>t. t\<lparr>t_status := Closed, closed_at := Some now\<rparr>)
           (find (\<lambda>x. t_id x = tid) (mock_transactions d))
   \<and> mock_transaction_items (snd (return_item True raises now d iid tid)) = mock_transaction_items d
   \<and> mock_transaction_items (snd (report_damaged True raises now d iid tid)) = mock_transaction_items d
   \<and> (iid \<notin> i_id ` set (mock_items d) \<and> tid \<notin> t_id ` set (mock_transactions d)
        \<longrightarrow> return_item True raises now d iid tid = (True, d)
            \<and> report_damaged True raises now d iid tid = (True, d))"
  by (simp add: return_item_mock_def report_damaged_mock_def find_set_item_status
        find_close_transaction set_item_status_absent close_transaction_absent)

text \<open>
  On the fixture: ARD001 (item 1) is Available and was never issued, and transaction 2
  has a single line, for RPI001 (item 5). A damage report for item 1 under transaction 2
  reports True, marks ARD001 Damaged and closes transaction 2, and a return does the same
  with Available; with the absent ids 99 and 98 both calls report True and change nothing.
\<close>

theorem return_and_damage_ignore_links_witness:
  "mock_transaction_items (init_mock_data 0)
     = [\<lparr>ti_id = 1, ti_transaction_id = 1, ti_item_id = 3\<rparr>,
        \<lparr>ti_id = 2, ti_transaction_id = 2, ti_item_id = 5\<rparr>]
   \<and> fst (report_damaged True (\<lambda>k. False) 5 (init_mock_data 0) 1 2) = True
   \<and> find (\<lambda>x. i_id x = 1)
        (mock_items (snd (report_damaged True (\<lambda>k. False) 5 (init_mock_data 0) 1 2)))
       = Some \<lparr>i_id = 1, serial_number = ''ARD001'', status = Damaged, inventory_id = 1\<rparr>
   \<and> find (\<lambda>x. i_id x = 1)
        (mock_items (snd (return_item True (\<lambda>k. False) 5 (init_mock_data 0) 1 2)))
       = Some \<lparr>i_id = 1, serial_number = ''ARD001'', status = Available, inventory_id = 1\<rparr>
   \<and> find (\<lambda>x. t_id x = 2)
        (mock_transactions (snd (report_damaged True (\<lambda>k. False) 5 (init_mock_data 0) 1 2)))
       = Some \<lparr>t_id = 2, t_student_id = 2, t_issuer_id = Some 2, t_status = Closed,
               created_at = - 10 * DAY_US, issue_date = - 10 * DAY_US, closed_at = Some 5\<rparr>
   \<and> find (\<lambda>x. t_id x = 2)
        (mock_transactions (snd (return_item True (\<lambda>k. False) 5 (init_mock_data 0) 1 2)))
       = Some \<lparr>t_id = 2, t_student_id = 2, t_issuer_id = Some 2, t_status = Closed,
               created_at = - 10 * DAY_US, issue_date = - 10 * DAY_US, closed_at = Some 5\<rparr>
   \<and> mock_transaction_items (snd (report_damaged True (\<lambda>k. False) 5 (init_mock_data 0) 1 2))
       = mock_transaction_items (init_mock_data 0)
   \<and> 99 \<notin> i_id ` set (mock_items (init_mock_data 0))
   \<and> 98 \<notin> t_id ` set (mock_transactions (init_mock_data 0))
   \<and> return_item True (\<lambda>k. False) 5 (init_mock_data 0) 99 98 = (True, init_mock_data 0)
   \<and> report_damaged True (\<lambda>k. False) 5 (init_mock_data 0) 99 98 = (True, init_mock_data 0)"
  using return_and_damage_ignore_links [of "\<lambda>k. False" 5 "init_mock_data 0" 1 2]
    return_and_damage_ignore_links [of "\<lambda>k. False" 5 "init_mock_data 0" 99 98]
  by (simp add: init_mock_data_def)

text \<open>
  Claim C4, as stated, fails: with no transaction 99 in the fixture,
  \<open>return_item(3, 99)\<close> on the in-process store still reports True and turns ARD003
  (item 3) from Issued to Available.
\<close>

theorem return_item_missing_transaction_counterexample:
  "99 \<notin> set (map t_id (mock_transactions (init_mock_data 0)))
   \<and> fst (return_item True (\<lambda>k. False) 5 (init_mock_data 0) 3 99) = True
   \<and> map status (mock_items (init_mock_data 0)) ! 2 = Issued
   \<and> map status (mock_items (snd (return_item True (\<lambda>k. False) 5 (init_mock_data 0) 3 99))) ! 2
       = Available"
  by (simp add: return_item_mock_def init_mock_data_def)

text \<open>
  Claim C4, amended. On the in-process store \<open>return_item\<close> reports True on every input
  and sets the first item with the given id, if there is one, to Available. When no
  transaction has the given id, the transactions are left as they were (there is no
  NotFound failure). When the first transaction with the given id is Active, it becomes
  Closed with \<open>closed_at = now\<close>. On the remote backend the method reports False when
  one of its two client calls raises and True otherwise, and does not touch the
  in-process lists.
\<close>

theorem return_item_effect:
  "fst (return_item True raises now d iid tid) = True
   \<and> map_option status
        (find (\<lambda>x. i_id x = iid) (mock_items (snd (return_item True raises now d iid tid))))
       = map_option (\<lambda>x. Available) (find (\<lambda>x. i_id x = iid) (mock_items d))
   \<and> (tid \<notin> t_id ` set (mock_transactions d)
        \<longrightarrow> mock_transactions (snd (return_item True raises now d iid tid)) = mock_transactions d)
   \<and> (find (\<lambda>x. t_id x = tid) (mock_transactions d) = Some t \<and> t_status t = Active
        \<longrightarrow> find (\<lambda>x. t_id x = tid)
              (mock_transactions (snd (return_item True raises now d iid tid)))
              = Some (t\<lparr>t_status := Closed, closed_at := Some now\<rparr>))
   \<and> fst (return_item False raises now d iid tid) = (\<not> raises 0 \<and> \<not> raises 1)
   \<and> snd (return_item False raises now d iid tid) = d"
  by (simp add: return_item_mock_def return_item_remote find_set_item_status
        find_close_transaction option.map_comp comp_def close_transaction_absent)

theorem return_item_effect_witness:
  "find (\<lambda>x. t_id x = 1) (mock_transactions (init_mock_data 0)) = Some (hd (mock_transactions (init_mock_data 0)))
   \<and> t_status (hd (mock_transactions (init_mock_data 0))) = Active
   \<and> 99 \<notin> t_id ` set (mock_transactions (init_mock_data 0))
   \<and> find (\<lambda>x. t_id x = 1)
        (mock_transactions (snd (return_item True (\<lambda>k. False) 5 (init_mock_data 0) 3 1)))
       = Some ((hd (mock_transactions (init_mock_data 0)))\<lparr>t_status := Closed, closed_at := Some 5\<rparr>)
   \<and> mock_transactions (snd (return_item True (\<lambda>k. False) 5 (init_mock_data 0) 3 99))
       = mock_transactions (init_mock_data 0)
   \<and> fst (return_item False (\<lambda>k. k = 1) 5 (init_mock_data 0) 3 1) = False
   \<and> fst (return_item False (\<lambda>k. False) 5 (init_mock_data 0) 3 99) = True"
  using return_item_effect [of "\<lambda>k. False" 5 "init_mock_data 0" 3 1 "hd (mock_transactions (init_mock_data 0))"]
    return_item_effect [of "\<lambda>k. False" 5 "init_mock_data 0" 3 99]
    return_item_effect [of "\<lambda>k. k = 1" 5 "init_mock_data 0" 3 1]
  by (simp add: init_mock_data_def)

subsection \<open>Deleting a student\<close>

text \<open>
  Claim C9, as stated, fails: the fixture has no student with id 99, and
  \<open>delete_student(99)\<close> on the in-process store reports True.
\<close>

theorem delete_absent_student_counterexample:
  "99 \<notin> set (map s_id (mock_students (init_mock_data 0)))
   \<and> fst (delete_student True (\<lambda>k. False) (init_mock_data 0) 99) = True"
  by (simp add: delete_student_mock_def init_mock_data_def)

text \<open>
  Claim C9, amended. On the in-process store \<open>delete_student\<close> reports True on every
  input; afterwards no student has the given id; for an id with no matching student the
  store is left exactly as it was, and the report is still True. On the remote backend
  the method reports False when its client call raises and True otherwise, whether or
  not a student with the id exists.
\<close>

theorem delete_student_effect:
  "fst (delete_student True raises d sid) = True
   \<and> sid \<notin> s_id ` set (mock_students (snd (delete_student True raises d sid)))
   \<and> (sid \<notin> s_id ` set (mock_students d) \<longrightarrow> snd (delete_student True raises d sid) = d)
   \<and> fst (delete_student False raises d sid) = (\<not> raises 0)
   \<and> snd (delete_student False raises d sid) = d"
proof -
  have "sid \<notin> s_id ` set (mock_students d) \<Longrightarrow>
        filter (\<lambda>s. s_id s \<noteq> sid) (mock_students d) = mock_students d"
    by (auto simp: filter_id_conv)
  then show ?thesis
    by (auto simp: delete_student_mock_def delete_student_remote)
qed

theorem delete_student_effect_witness:
  "99 \<notin> s_id ` set (mock_students (init_mock_data 0))
   \<and> delete_student True (\<lambda>k. False) (init_mock_data 0) 99 = (True, init_mock_data 0)
   \<and> delete_student False (\<lambda>k. True) (init_mock_data 0) 1 = (False, init_mock_data 0)"
  using delete_student_effect [of "\<lambda>k. False" "init_mock_data 0" 99]
    delete_student_effect [of "\<lambda>k. True" "init_mock_data 0" 1]
  by (simp add: init_mock_data_def prod_eq_iff)

subsection \<open>Returning on a closed transaction\<close>

text \<open>
  Claim C3, as stated, fails. On the in-process store, returning ARD003 under
  transaction 1 at time 10 closes the transaction; a second \<open>return_item(3, 1)\<close> at
  time 20 reports True again and moves \<open>closed_at\<close> from 10 to 20. And when ARD003 has
  been issued again in between (to student 2, at time 15), the second return on the
  closed transaction 1 turns it from Issued back to Available.
\<close>

theorem second_return_counterexample:
  "map t_status (mock_transactions
      (snd (return_item True (\<lambda>k. False) 10 (init_mock_data 0) 3 1))) ! 0 = Closed
   \<and> fst (return_item True (\<lambda>k. False) 20
         (snd (return_item True (\<lambda>k. False) 10 (init_mock_data 0) 3 1)) 3 1) = True
   \<and> map closed_at (mock_transactions
        (snd (return_item True (\<lambda>k. False) 10 (init_mock_data 0) 3 1))) ! 0 = Some 10
   \<and> map closed_at (mock_transactions
        (snd (return_item True (\<lambda>k. False) 20
           (snd (return_item True (\<lambda>k. False) 10 (init_mock_data 0) 3 1)) 3 1))) ! 0 = Some 20
   \<and> map status (mock_items (snd (create_transaction 15
        (snd (return_item True (\<lambda>k. False) 10 (init_mock_data 0) 3 1)) 2 [3] (Some 1)))) ! 2 = Issued
   \<and> map status (mock_items (snd (return_item True (\<lambda>k. False) 20
        (snd (create_transaction 15
           (snd (return_item True (\<lambda>k. False) 10 (init_mock_data 0) 3 1)) 2 [3] (Some 1)))
        3 1))) ! 2 = Available"
  by (simp add: return_item_mock_def create_transaction_def issue_one_def init_mock_data_def)

text \<open>
  Claim C3, amended. On the in-process store, on a transaction that is already Closed,
  \<open>return_item\<close> reports True; the transaction stays Closed and its \<open>closed_at\<close> is
  overwritten with the current time; the first item with the given id, if there is one,
  is set to Available; the items with another id, the transactions with another id and
  the transaction lines are left as they were. There is no AlreadyClosed failure; what
  keeps the call away from closed transactions is its caller: every row of
  \<open>get_active_loans\<close>, from which the returns view takes the two ids, carries the id of
  an Active transaction. On the remote backend the method reports False when one of its
  two client calls raises and True otherwise, whatever the status of the transaction.
\<close>

theorem return_item_on_closed:
  assumes "find (\<lambda>x. t_id x = tid) (mock_transactions d) = Some t" and "t_status t = Closed"
  shows "fst (return_item True raises now d iid tid) = True
   \<and> find (\<lambda>x. t_id x = tid) (mock_transactions (snd (return_item True raises now d iid tid)))
       = Some (t\<lparr>closed_at := Some now\<rparr>)
   \<and> map_option status
        (find (\<lambda>x. i_id x = iid) (mock_items (snd (return_item True raises now d iid tid))))
       = map_option (\<lambda>x. Available) (find (\<lambda>x. i_id x = iid) (mock_items d))
   \<and> (\<forall>j. j \<noteq> iid \<longrightarrow>
          filter (\<lambda>x. i_id x = j) (mock_items (snd (return_item True raises now d iid tid)))
            = filter (\<lambda>x. i_id x = j) (mock_items d))
   \<and> (\<forall>j. j \<noteq> tid \<longrightarrow>
          filter (\<lambda>x. t_id x = j) (mock_transactions (snd (return_item True raises now d iid tid)))
            = filter (\<lambda>x. t_id x = j) (mock_transactions d))
   \<and> mock_transaction_items (snd (return_item True raises now d iid tid)) = mock_transaction_items d
   \<and> (\<forall>sid. \<forall>l \<in> set (get_active_loans d sid).
         \<exists>tr \<in> set (mock_transactions d). t_id tr = loan_transaction_id l \<and> t_status tr = Active)
   \<and> fst (return_item False raises now d iid tid) = (\<not> raises 0 \<and> \<not> raises 1)
   \<and> snd (return_item False raises now d iid tid) = d"
proof -
  have c: "t\<lparr>t_status := Closed, closed_at := Some now\<rparr> = t\<lparr>closed_at := Some now\<rparr>"
    using assms(2) by simp
  show ?thesis
    using assms(1) c get_active_loans_active
    by (simp add: return_item_mock_def return_item_remote find_set_item_status
          find_close_transaction option.map_comp
          comp_def filter_other_set_item_status filter_other_close_transaction) blast
qed

theorem return_item_on_closed_witness:
  "find (\<lambda>x. t_id x = 1)
      (mock_transactions (snd (return_item True (\<lambda>k. False) 10 (init_mock_data 0) 3 1)))
     = Some \<lparr>t_id = 1, t_student_id = 1, t_issuer_id = Some 1, t_status = Closed,
             created_at = 0, issue_date = 0, closed_at = Some 10\<rparr>
   \<and> t_status \<lparr>t_id = 1, t_student_id = 1, t_issuer_id = Some 1, t_status = Closed,
             created_at = 0, issue_date = 0, closed_at = Some 10\<rparr> = Closed
   \<and> fst (return_item True (\<lambda>k. False) 20
         (snd (return_item True (\<lambda>k. False) 10 (init_mock_data 0) 3 1)) 3 1) = True
   \<and> find (\<lambda>x. t_id x = 1)
        (mock_transactions (snd (return_item True (\<lambda>k. False) 20
           (snd (return_item True (\<lambda>k. False) 10 (init_mock_data 0) 3 1)) 3 1)))
     = Some \<lparr>t_id = 1, t_student_id = 1, t_issuer_id = Some 1, t_status = Closed,
             created_at = 0, issue_date = 0, closed_at = Some 20\<rparr>
   \<and> fst (return_item False (\<lambda>k. k = 0) 20
         (snd (return_item True (\<lambda>k. False) 10 (init_mock_data 0) 3 1)) 3 1) = False"
proof -
  have h: "find (\<lambda>x. t_id x = 1)
      (mock_transactions (snd (return_item True (\<lambda>k. False) 10 (init_mock_data 0) 3 1)))
     = Some \<lparr>t_id = 1, t_student_id = 1, t_issuer_id = Some 1, t_status = Closed,
             created_at = 0, issue_date = 0, closed_at = Some 10\<rparr>"
    by (simp add: return_item_mock_def init_mock_data_def)
  show ?thesis
    using h return_item_on_closed [OF h, of "\<lambda>k. False" 20 3]
      return_item_on_closed [OF h, of "\<lambda>k. k = 0" 20 3] by simp
qed

subsection \<open>Issuing\<close>

lemma foldl_issue_one_transactions:
  "mock_transactions (foldl (issue_one tid) d ids) = mock_transactions d"
  by (induction ids arbitrary: d) (auto simp: issue_one_def)

lemma foldl_issue_one_lines:
  "mock_transaction_items (foldl (issue_one tid) d ids) =
     mock_transaction_items d @
       map (\<lambda>(k, i). \<lparr>ti_id = int k + 1, ti_transaction_id = tid, ti_item_id = i\<rparr>)
         (enumerate (length (mock_transaction_items d)) ids)"
proof (induction ids arbitrary: d)
  case Nil
  then show ?case by simp
next
  case (Cons a ids)
  show ?case
    using Cons.IH [of "issue_one tid d a"]
    by (simp add: issue_one_def)
qed

text \<open>
  Claim C2, as stated, fails: \<open>create_transaction\<close> checks nothing. On the fixture, with
  an empty list of item ids it returns the new id 3 and stores a third transaction; with
  ARD003 (item 3, Issued) it returns 3 and stores a line for it; with ARD004 (item 4,
  Damaged) and no override of any kind it returns 3 and marks the item Issued.
\<close>

theorem create_transaction_unchecked_counterexample:
  "fst (create_transaction 5 (init_mock_data 0) 1 [] (Some 1)) = Some 3
   \<and> length (mock_transactions (init_mock_data 0)) = 2
   \<and> length (mock_transactions (snd (create_transaction 5 (init_mock_data 0) 1 [] (Some 1)))) = 3
   \<and> map status (mock_items (init_mock_data 0)) ! 2 = Issued
   \<and> fst (create_transaction 5 (init_mock_data 0) 1 [3] (Some 1)) = Some 3
   \<and> length (mock_transaction_items (init_mock_data 0)) = 2
   \<and> mock_transaction_items (snd (create_transaction 5 (init_mock_data 0) 1 [3] (Some 1))) ! 2
       = \<lparr>ti_id = 3, ti_transaction_id = 3, ti_item_id = 3\<rparr>
   \<and> map status (mock_items (init_mock_data 0)) ! 3 = Damaged
   \<and> fst (create_transaction 5 (init_mock_data 0) 1 [4] (Some 1)) = Some 3
   \<and> map status (mock_items (snd (create_transaction 5 (init_mock_data 0) 1 [4] (Some 1)))) ! 3 = Issued"
  by (simp add: create_transaction_def issue_one_def init_mock_data_def)

text \<open>
  Claim C2, amended. The rejections belong to the issue view, which runs before
  \<open>create_transaction\<close>: \<open>_finalize_issue\<close> with an empty cart shows the Empty Cart
  error and leaves the store unchanged; \<open>_handle_serial_number\<close> answers an Issued item
  with the error Item already issued! and leaves the cart unchanged; it answers a Damaged
  item with a warning and puts it in the cart only when the user confirms.
  \<open>create_transaction\<close> itself accepts every list of item ids: it returns the new id
  (the number of transactions plus one), appends one Active transaction dated now and one
  line per given id.
\<close>

theorem issue_gate:
  "(cart_items v = [] \<longrightarrow>
      finalize_issue now d v =
        (ErrorPopup ''Cart is empty. Add items before finalizing.'' ''Empty Cart'', d))
   \<and> (status itm = Issued \<longrightarrow>
        handle_serial_number confirm itm cart = ([ErrorPopup ''Item already issued!'' ''Error''], cart))
   \<and> (status itm = Damaged \<longrightarrow>
        handle_serial_number False itm cart = ([WarningPopup itm], cart))
   \<and> (status itm = Damaged \<and> i_id itm \<notin> i_id ` set cart \<longrightarrow>
        handle_serial_number True itm cart = ([WarningPopup itm], cart @ [itm]))
   \<and> fst (create_transaction now d sid ids iss) = Some (int (length (mock_transactions d)) + 1)
   \<and> mock_transactions (snd (create_transaction now d sid ids iss)) =
       mock_transactions d @
         [\<lparr>t_id = int (length (mock_transactions d)) + 1, t_student_id = sid,
           t_issuer_id = (case iss of None \<Rightarrow> None | Some i \<Rightarrow> if i \<noteq> 0 then Some i else None),
           t_status = Active, created_at = now, issue_date = now, closed_at = None\<rparr>]
   \<and> mock_transaction_items (snd (create_transaction now d sid ids iss)) =
       mock_transaction_items d @
         map (\<lambda>(k, i). \<lparr>ti_id = int k + 1,
                         ti_transaction_id = int (length (mock_transactions d)) + 1,
                         ti_item_id = i\<rparr>)
           (enumerate (length (mock_transaction_items d)) ids)"
proof -
  have cart: "i_id itm \<notin> i_id ` set cart \<Longrightarrow> add_item_to_cart itm cart = ([], cart @ [itm])"
    unfolding add_item_to_cart_def by (metis (mono_tags, lifting) image_eqI)
  show ?thesis
    by (simp add: finalize_issue_def handle_serial_number_def cart
          create_transaction_def Let_def foldl_issue_one_transactions foldl_issue_one_lines)
qed

theorem issue_gate_witness:
  "cart_items \<lparr>cart_items = [], current_issuer_id = Some 1, issuer_dropdown = None,
                student_dropdown = ''John Doe (STU001)''\<rparr> = []
   \<and> status (mock_items (init_mock_data 0) ! 2) = Issued
   \<and> status (mock_items (init_mock_data 0) ! 3) = Damaged
   \<and> i_id (mock_items (init_mock_data 0) ! 3) \<notin> i_id ` set []
   \<and> finalize_issue 5 (init_mock_data 0)
        \<lparr>cart_items = [], current_issuer_id = Some 1, issuer_dropdown = None,
          student_dropdown = ''John Doe (STU001)''\<rparr>
       = (ErrorPopup ''Cart is empty. Add items before finalizing.'' ''Empty Cart'', init_mock_data 0)
   \<and> handle_serial_number True (mock_items (init_mock_data 0) ! 2) []
       = ([ErrorPopup ''Item already issued!'' ''Error''], [])
   \<and> handle_serial_number False (mock_items (init_mock_data 0) ! 3) []
       = ([WarningPopup (mock_items (init_mock_data 0) ! 3)], [])
   \<and> handle_serial_number True (mock_items (init_mock_data 0) ! 3) []
       = ([WarningPopup (mock_items (init_mock_data 0) ! 3)], [mock_items (init_mock_data 0) ! 3])"
  using issue_gate [of "\<lparr>cart_items = [], current_issuer_id = Some 1, issuer_dropdown = None,
          student_dropdown = ''John Doe (STU001)''\<rparr>" 5 "init_mock_data 0"
          "mock_items (init_mock_data 0) ! 2" True "[]"]
    issue_gate [of "\<lparr>cart_items = [], current_issuer_id = Some 1, issuer_dropdown = None,
          student_dropdown = ''John Doe (STU001)''\<rparr>" 5 "init_mock_data 0"
          "mock_items (init_mock_data 0) ! 3" True "[]"]
  by (simp add: init_mock_data_def)

subsection \<open>Bulk import: the serial prefix\<close>

lemma of_char_upper_char:
  "(of_char (upper_char c) :: nat) =
     (if 97 \<le> (of_char c :: nat) \<and> (of_char c :: nat) \<le> 122 then of_char c - 32 else of_char c)"
proof (cases "97 \<le> (of_char c :: nat) \<and> (of_char c :: nat) \<le> 122")
  case True
  then have "(of_char c :: nat) - 32 < 256" by arith
  then have "((of_char c :: nat) - 32) mod 256 = of_char c - 32" by (rule mod_less)
  with True show ?thesis by (simp add: upper_char_def Let_def)
next
  case False
  then have "upper_char c = c" by (auto simp: upper_char_def Let_def)
  with False show ?thesis by auto
qed

lemma is_space_upper_char: "is_space (upper_char c) = is_space c"
  by (auto simp: is_space_def of_char_upper_char Let_def)

lemma space_is_space: "is_space CHR '' ''"
  by (simp add: is_space_def)

lemma length_upper: "length (upper s) = length s"
  by (simp add: upper_def)

text \<open>
  Claim C6, as stated, fails on its own example: the code cuts the name to three
  characters first and removes spaces afterwards, so the prefix of Io Board is IOX, where
  the specification's reading (remove whitespace, then take three) gives IOB.
\<close>

theorem serial_prefix_counterexample:
  "serial_prefix ''Io Board'' = ''IOX'' \<and> serial_prefix ''Io Board'' \<noteq> ''IOB''
   \<and> spec_serial_prefix ''Io Board'' = ''IOB''"
  by code_simp

text \<open>
  Claim C6, amended. For every ASCII component name (the name of the row, stripped), the
  prefix is made from its first three characters: they are uppercased, the space
  characters among them are removed, and the result is padded on the right with X to
  three characters. It always has length three and no space. Whenever none of the first
  three characters of the name is whitespace, it is the prefix the specification
  describes. The prefix of Pi is PIX, of Io Board IOX, of Raspberry Pi RAS.
\<close>

theorem serial_prefix_shape:
  assumes "is_ascii component_name"
  shows "serial_prefix component_name
       = ljust 3 CHR ''X'' (remove_spaces (upper (take 3 component_name)))
   \<and> length (serial_prefix component_name) = 3
   \<and> CHR '' '' \<notin> set (serial_prefix component_name)
   \<and> ((\<forall>c \<in> set (take 3 component_name). \<not> is_space c)
        \<longrightarrow> serial_prefix component_name = spec_serial_prefix component_name)
   \<and> serial_prefix ''Pi'' = ''PIX'' \<and> serial_prefix ''Io Board'' = ''IOX''
   \<and> serial_prefix ''Raspberry Pi'' = ''RAS''"
proof -
  let ?p = "remove_spaces (upper (take 3 component_name))"
  have len: "length ?p \<le> 3"
    unfolding remove_spaces_def upper_def
    by (rule order_trans [OF length_filter_le]) simp
  have a: "serial_prefix component_name = ljust 3 CHR ''X'' ?p"
    using len by (simp add: serial_prefix_def Let_def ljust_def)
  have b: "length (serial_prefix component_name) = 3"
    using len by (simp add: a ljust_def)
  have c: "CHR '' '' \<notin> set (serial_prefix component_name)"
    by (simp add: a ljust_def remove_spaces_def)
  have d: "serial_prefix component_name = spec_serial_prefix component_name"
    if h: "\<forall>c \<in> set (take 3 component_name). \<not> is_space c"
  proof -
    have u: "\<forall>c \<in> set (upper (take 3 component_name)). \<not> is_space c"
      using h by (auto simp: upper_def is_space_upper_char)
    have p: "?p = upper (take 3 component_name)"
      unfolding remove_spaces_def using u space_is_space by (auto simp: filter_id_conv)
    have w: "remove_whitespace (upper (take 3 component_name)) = upper (take 3 component_name)"
      unfolding remove_whitespace_def using u by (auto simp: filter_id_conv)
    have split: "upper component_name = upper (take 3 component_name) @ upper (drop 3 component_name)"
      unfolding upper_def by (simp flip: map_append)
    have "take 3 (remove_whitespace (upper component_name)) = upper (take 3 component_name)"
    proof (cases "3 \<le> length component_name")
      case True
      then have "length (upper (take 3 component_name)) = 3" by (simp add: upper_def)
      then show ?thesis
        using w by (subst split) (simp add: remove_whitespace_def)
    next
      case False
      then have "drop 3 component_name = []" by simp
      then show ?thesis
        using w False by (subst split) (simp add: remove_whitespace_def upper_def)
    qed
    then show ?thesis
      by (simp add: a p spec_serial_prefix_def)
  qed
  have e: "serial_prefix ''Pi'' = ''PIX'' \<and> serial_prefix ''Io Board'' = ''IOX''
           \<and> serial_prefix ''Raspberry Pi'' = ''RAS''"
    by code_simp
  show ?thesis
    using a b c d e by blast
qed

theorem serial_prefix_shape_witness:
  "is_ascii ''Arduino''
   \<and> serial_prefix ''Arduino'' = spec_serial_prefix ''Arduino''
   \<and> spec_serial_prefix ''Arduino'' = ''ARD''
   \<and> length (serial_prefix ''Arduino'') = 3"
proof -
  have a: "is_ascii ''Arduino''"
    by (simp add: is_ascii_def)
  have h: "\<forall>c \<in> set (take 3 ''Arduino''). \<not> is_space c"
    by (simp add: is_space_def)
  have s: "spec_serial_prefix ''Arduino'' = ''ARD''"
    by code_simp
  show ?thesis
    using a h s serial_prefix_shape [OF a] by blast
qed

subsection \<open>Overdue items\<close>















subsection \<open>Bulk import: formatting and parsing numbers\<close>

lemma of_char_digit_char: "k < 10 \<Longrightarrow> (of_char (digit_char k) :: nat) = 48 + k"
proof -
  assume "k < 10"
  then have "(48 + k) mod 256 = 48 + k" by simp
  then show ?thesis by (simp add: digit_char_def)
qed

lemma is_digit_digit_char: "k < 10 \<Longrightarrow> is_digit (digit_char k)"
  by (simp add: is_digit_def of_char_digit_char)

lemma digit_val_digit_char: "k < 10 \<Longrightarrow> digit_val (digit_char k) = k"
  by (simp add: digit_val_def of_char_digit_char)

lemma is_digit_not_int_space: "is_digit c \<Longrightarrow> \<not> is_int_space c"
  by (auto simp: is_digit_def is_int_space_def Let_def)

lemma is_digit_not_sign: "is_digit c \<Longrightarrow> c \<noteq> CHR ''-'' \<and> c \<noteq> CHR ''+''"
  by (auto simp: is_digit_def Let_def)

lemma is_digit_zero: "is_digit CHR ''0'' \<and> digit_val CHR ''0'' = 0"
  by (simp add: is_digit_def digit_val_def)

lemma digits_all_digit: "\<forall>c \<in> set (digits n). is_digit c"
proof (induction n rule: digits.induct)
  case (1 n)
  show ?case
  proof (cases "n < 10")
    case True
    then show ?thesis by (subst digits.simps) (simp add: is_digit_digit_char)
  next
    case False
    then show ?thesis
      using "1.IH" by (subst digits.simps) (simp add: is_digit_digit_char)
  qed
qed

lemma digits_nonempty: "digits n \<noteq> []"
  by (subst digits.simps) simp

lemma length_digits_mono: "a \<le> b \<Longrightarrow> length (digits a) \<le> length (digits b)"
proof (induction a arbitrary: b rule: digits.induct)
  case (1 a)
  show ?case
  proof (cases "a < 10")
    case True
    have "1 \<le> length (digits b)"
      using digits_nonempty [of b] by (cases "digits b") simp_all
    then show ?thesis
      using True by (subst digits.simps) simp
  next
    case False
    then have b: "\<not> b < 10" using "1.prems" by simp
    have "a div 10 \<le> b div 10" using "1.prems" by (rule div_le_mono)
    then have "length (digits (a div 10)) \<le> length (digits (b div 10))"
      using "1.IH" False by blast
    then show ?thesis
      using False b by (subst digits.simps, subst (2) digits.simps) simp
  qed
qed

lemma dec_value_snoc: "dec_value acc (s @ [c]) = dec_value acc s * 10 + digit_val c"
  by (simp add: dec_value_def)

lemma dec_value_digits: "dec_value 0 (digits n) = n"
proof (induction n rule: digits.induct)
  case (1 n)
  show ?case
  proof (cases "n < 10")
    case True
    then show ?thesis
      by (subst digits.simps) (simp add: dec_value_def digit_val_digit_char)
  next
    case False
    then have "dec_value 0 (digits n) = dec_value 0 (digits (n div 10)) * 10 + n mod 10"
      by (subst digits.simps) (simp add: dec_value_snoc digit_val_digit_char)
    then show ?thesis
      using False "1.IH" by simp
  qed
qed

lemma dec_value_zeros: "dec_value 0 (replicate k CHR ''0'' @ s) = dec_value 0 s"
  by (induction k) (simp_all add: dec_value_def is_digit_zero)

lemma parse_digits_all_digit:
  "\<forall>c \<in> set s. is_digit c \<Longrightarrow> parse_digits acc s = Some (dec_value acc s)"
  by (induction acc s rule: parse_digits.induct) (simp_all add: dec_value_def)

lemma int_strip_no_space:
  assumes "s \<noteq> []" and "\<forall>c \<in> set s. \<not> is_int_space c"
  shows "rev (dropWhile is_int_space (rev (dropWhile is_int_space s))) = s"
proof -
  have a: "dropWhile is_int_space s = s"
    using assms by (cases s) simp_all
  have b: "dropWhile is_int_space (rev s) = rev s"
    using assms by (cases "rev s") (simp, metis dropWhile.simps(2) list.set_intros(1) set_rev)
  show ?thesis by (simp add: a b)
qed

lemma py_int_all_digit:
  assumes "s \<noteq> []" and "\<forall>c \<in> set s. is_digit c" and "length s \<le> MAX_STR_DIGITS"
  shows "py_int s = Some (int (dec_value 0 s))"
proof -
  obtain c r where s: "s = c # r" using assms(1) by (cases s) auto
  have "rev (dropWhile is_int_space (rev (dropWhile is_int_space s))) = s"
    using assms(1,2) int_strip_no_space [of s] is_digit_not_int_space by blast
  then have st: "rev (dropWhile is_int_space (rev (dropWhile is_int_space (c # r)))) = c # r"
    by (simp only: s)
  have dc: "is_digit c" and dr: "\<forall>x \<in> set r. is_digit x" using assms(2) s by auto
  have sg: "c \<noteq> CHR ''-''" "c \<noteq> CHR ''+''" using dc is_digit_not_sign by blast+
  have "filter is_digit (c # r) = c # r"
    using assms(2) s by (simp add: filter_id_conv)
  then have len: "length (filter is_digit (c # r)) \<le> MAX_STR_DIGITS"
    using assms(3) s by simp
  have dv: "dec_value 0 (c # r) = dec_value (digit_val c) r" by (simp add: dec_value_def)
  show ?thesis
    unfolding s py_int_def st
    using sg dc len by (simp add: Let_def parse_digits_all_digit [OF dr] dv)
qed

lemma py_int_zfill_digits:
  assumes "length (digits k) \<le> MAX_STR_DIGITS"
  shows "py_int (zfill 3 (digits k)) = Some (int k)"
proof -
  let ?s = "zfill 3 (digits k)"
  have ne: "?s \<noteq> []" by (simp add: zfill_def digits_nonempty)
  have ad: "\<forall>c \<in> set ?s. is_digit c"
    using digits_all_digit [of k] by (auto simp: zfill_def is_digit_zero)
  have len: "length ?s \<le> MAX_STR_DIGITS"
    using assms by (simp add: zfill_def MAX_STR_DIGITS_def)
  have "dec_value 0 ?s = k"
    by (simp add: zfill_def dec_value_zeros dec_value_digits)
  then show ?thesis
    using py_int_all_digit [OF ne ad len] by simp
qed

lemma fmt_03d_nonneg:
  "0 \<le> n \<Longrightarrow> length (digits (nat n)) \<le> MAX_STR_DIGITS \<Longrightarrow>
     fmt_03d n = Inr (zfill 3 (digits (nat n)))"
  by (simp add: fmt_03d_def)

lemma length_zfill: "3 \<le> length (zfill 3 s)"
  by (simp add: zfill_def)

subsection \<open>Bulk import: generated serial numbers\<close>

lemma Max_set_Cons2: "Max (set (a # b # xs)) = Max (set (max a b # xs))"
proof (cases xs)
  case Nil
  then show ?thesis by (simp add: max.commute)
next
  case (Cons x xs')
  then show ?thesis by (simp add: max.assoc max.commute max.left_commute)
qed

lemma parsed_suffixes_Cons:
  "parsed_suffixes inventory_no prefix (itm # items) =
          (if inventory_id itm = inventory_no \<and> startswith (serial_number itm) prefix
           then (case py_int (drop (length prefix) (serial_number itm)) of
                   None \<Rightarrow> [] | Some num \<Rightarrow> [num])
           else []) @ parsed_suffixes inventory_no prefix items"
  by (simp add: parsed_suffixes_def)

lemma foldl_max_serial_step:
  "foldl (max_serial_step inventory_no prefix) m items =
     Max (set (m # parsed_suffixes inventory_no prefix items))"
proof (induction items arbitrary: m)
  case Nil
  then show ?case by (simp add: parsed_suffixes_def)
next
  case (Cons itm items)
  note sp = parsed_suffixes_Cons [of inventory_no prefix itm items]
  show ?case
  proof (cases "inventory_id itm = inventory_no \<and> startswith (serial_number itm) prefix")
    case False
    have st: "max_serial_step inventory_no prefix m itm = m"
    proof (cases "inventory_id itm = inventory_no")
      case True
      then have "\<not> startswith (serial_number itm) prefix" using False by blast
      then show ?thesis using True by (simp add: max_serial_step_def)
    next
      case False
      then show ?thesis by (simp add: max_serial_step_def)
    qed
    have "parsed_suffixes inventory_no prefix (itm # items)
            = parsed_suffixes inventory_no prefix items"
      by (simp only: sp if_not_P [OF False] append_Nil)
    then show ?thesis
      using Cons.IH [of m] by (simp add: st)
  next
    case True
    show ?thesis
    proof (cases "py_int (drop (length prefix) (serial_number itm))")
      case None
      then have "max_serial_step inventory_no prefix m itm = m"
        using True by (simp add: max_serial_step_def)
      then show ?thesis
        using True None Cons.IH [of m] sp by simp
    next
      case (Some num)
      then have "max_serial_step inventory_no prefix m itm = max m num"
        using True by (simp add: max_serial_step_def)
      then show ?thesis
        using True Some Cons.IH [of "max m num"] sp Max_set_Cons2 [of m num]
        by simp
    qed
  qed
qed

lemma max_serial_num_spec:
  "max_serial_num inventory_no prefix items = max 0 (spec_max_suffix inventory_no prefix items)"
proof (cases "parsed_suffixes inventory_no prefix items = []")
  case True
  then show ?thesis
    by (simp add: max_serial_num_def spec_max_suffix_def foldl_max_serial_step)
next
  case False
  then have "Max (insert 0 (set (parsed_suffixes inventory_no prefix items)))
      = max 0 (Max (set (parsed_suffixes inventory_no prefix items)))"
    by (simp add: Max_insert)
  then show ?thesis
    using False by (simp add: max_serial_num_def spec_max_suffix_def foldl_max_serial_step)
qed

lemma max_serial_num_bounds:
  "0 \<le> max_serial_num inventory_no prefix items
   \<and> (\<forall>n \<in> set (parsed_suffixes inventory_no prefix items).
         n \<le> max_serial_num inventory_no prefix items)"
  unfolding max_serial_num_def foldl_max_serial_step
  by (metis List.finite_set Max_ge list.set_intros(1) list.set_intros(2))

lemma append_items_ok:
  assumes "0 \<le> max_num"
    and "\<forall>i \<in> set rest. length (digits (nat (max_num + int i + 1))) \<le> MAX_STR_DIGITS"
  shows "append_items inventory_no prefix max_num (old @ acc) rest =
     (None, old @ acc @
        map (\<lambda>(k, i). \<lparr>i_id = int (length old) + int k + 1,
                        serial_number = prefix @ zfill 3 (digits (nat (max_num + int i + 1))),
                        status = Available, inventory_id = inventory_no\<rparr>)
          (enumerate (length acc) rest))"
  using assms(2)
proof (induction rest arbitrary: acc)
  case Nil
  then show ?case by simp
next
  case (Cons i rest)
  have f: "fmt_03d (max_num + int i + 1) = Inr (zfill 3 (digits (nat (max_num + int i + 1))))"
    using assms(1) Cons.prems by (simp add: fmt_03d_nonneg)
  have r: "\<forall>i \<in> set rest. length (digits (nat (max_num + int i + 1))) \<le> MAX_STR_DIGITS"
    using Cons.prems by simp
  show ?case
    using Cons.IH [OF r, of "acc @ [\<lparr>i_id = int (length (old @ acc)) + 1,
                        serial_number = prefix @ zfill 3 (digits (nat (max_num + int i + 1))),
                        status = Available, inventory_id = inventory_no\<rparr>]"]
    by (simp add: f)
qed

lemma map_enumerate_upt:
  "map (\<lambda>(k, i). g k i) (enumerate 0 [0..<n]) = map (\<lambda>k. g k k) [0..<n]"
  by (simp add: enumerate_eq_zip zip_same_conv_map)

lemma append_items_range:
  assumes "0 \<le> max_num"
    and "length (digits (nat (max_num + int n))) \<le> MAX_STR_DIGITS"
  shows "append_items inventory_no prefix max_num items [0..<n] =
     (None, items @
        map (\<lambda>k. \<lparr>i_id = int (length items) + int k + 1,
                   serial_number = prefix @ zfill 3 (digits (nat (max_num + int k + 1))),
                   status = Available, inventory_id = inventory_no\<rparr>) [0..<n])"
proof -
  have b: "\<forall>i \<in> set [0..<n]. length (digits (nat (max_num + int i + 1))) \<le> MAX_STR_DIGITS"
  proof
    fix i
    assume "i \<in> set [0..<n]"
    then have "nat (max_num + int i + 1) \<le> nat (max_num + int n)"
      using assms(1) by simp
    then show "length (digits (nat (max_num + int i + 1))) \<le> MAX_STR_DIGITS"
      using length_digits_mono assms(2) order_trans by blast
  qed
  show ?thesis
    using append_items_ok [OF assms(1) b, of inventory_no prefix items "[]"]
    by (simp add: map_enumerate_upt)
qed

lemma book_row_eq:
  "book_row (d, c1, c2) component_name quantity descr =
     (fst (append_items (target_inventory d component_name) (serial_prefix component_name)
             (max_serial_num (target_inventory d component_name)
                (serial_prefix component_name) (mock_items d))
             (mock_items d) [0..<nat quantity]),
      (d\<lparr>mock_inventory :=
            (case find (\<lambda>iv. upper (inv_name iv) = upper component_name) (mock_inventory d) of
               Some e \<Rightarrow> add_total_qty component_name quantity (mock_inventory d)
             | None \<Rightarrow> mock_inventory d @
                  [\<lparr>inv_id = target_inventory d component_name, inv_name = component_name,
                    total_qty = quantity, course = None, description = Some descr\<rparr>]),
          mock_items :=
            snd (append_items (target_inventory d component_name) (serial_prefix component_name)
             (max_serial_num (target_inventory d component_name)
                (serial_prefix component_name) (mock_items d))
             (mock_items d) [0..<nat quantity])\<rparr>,
       (case find (\<lambda>iv. upper (inv_name iv) = upper component_name) (mock_inventory d) of
               Some e \<Rightarrow> c1 | None \<Rightarrow> c1 + 1),
       c2 + (int (length (snd (append_items (target_inventory d component_name)
             (serial_prefix component_name)
             (max_serial_num (target_inventory d component_name)
                (serial_prefix component_name) (mock_items d))
             (mock_items d) [0..<nat quantity]))) - int (length (mock_items d)))))"
  unfolding book_row_def prod.case Let_def target_inventory_def
  by (cases "find (\<lambda>iv. upper (inv_name iv) = upper component_name) (mock_inventory d)") simp_all

lemma import_row_booked:
  assumes "cell_strip (row_component_name row) = Inr component_name"
    and "cell_int (row_quantity row) = Inr quantity"
    and "cell_strip (row_description row) = Inr descr"
    and "component_name \<noteq> []" and "0 < quantity"
  shows "import_row acc row = book_row acc component_name quantity descr"
proof -
  have nq: "\<not> (component_name = [] \<or> quantity \<le> 0)" using assms(4,5) by simp
  show ?thesis
    unfolding import_row_def assms(1-3) sum.case if_not_P [OF nq] by (rule refl)
qed

lemma import_row_skipped:
  assumes "cell_strip (row_component_name row) = Inr component_name"
    and "cell_int (row_quantity row) = Inr quantity"
    and "cell_strip (row_description row) = Inr descr"
    and "component_name = [] \<or> quantity \<le> 0"
  shows "import_row acc row = (None, acc)"
  unfolding import_row_def assms(1-3) sum.case if_P [OF assms(4)] by (rule refl)

lemma in_parsed_suffixes:
  assumes "itm \<in> set items" and "inventory_id itm = inventory_no"
    and "startswith (serial_number itm) prefix"
    and "py_int (drop (length prefix) (serial_number itm)) = Some n"
  shows "n \<in> set (parsed_suffixes inventory_no prefix items)"
  using assms(1)
proof (induction items)
  case Nil
  then show ?case by simp
next
  case (Cons x items)
  note sp = parsed_suffixes_Cons [of inventory_no prefix x items]
  show ?case
  proof (cases "itm \<in> set items")
    case True
    have "n \<in> set (parsed_suffixes inventory_no prefix items)"
      by (rule Cons.IH [OF True])
    then have "n \<in> set (ys @ parsed_suffixes inventory_no prefix items)" for ys
      by simp
    then show ?thesis
      by (subst sp)
  next
    case False
    then have "inventory_id x = inventory_no \<and> startswith (serial_number x) prefix
        \<and> py_int (drop (length prefix) (serial_number x)) = Some n"
      using Cons.prems assms(2-4) by (metis set_ConsD)
    then have "parsed_suffixes inventory_no prefix (x # items) =
        n # parsed_suffixes inventory_no prefix items"
      by (simp add: sp)
    then show ?thesis
      by simp
  qed
qed

lemma new_serial_not_taken:
  assumes "itm \<in> set items" and "inventory_id itm = inventory_no"
    and "max_serial_num inventory_no prefix items = M"
    and "length (digits (nat (M + int k + 1))) \<le> MAX_STR_DIGITS"
  shows "serial_number itm \<noteq> prefix @ zfill 3 (digits (nat (M + int k + 1)))"
proof
  assume eq: "serial_number itm = prefix @ zfill 3 (digits (nat (M + int k + 1)))"
  have M0: "0 \<le> M" using max_serial_num_bounds assms(3) by blast
  have sw: "startswith (serial_number itm) prefix"
    by (simp add: startswith_def eq)
  have "py_int (drop (length prefix) (serial_number itm)) = Some (int (nat (M + int k + 1)))"
    using assms(4) by (simp add: eq py_int_zfill_digits)
  then have "py_int (drop (length prefix) (serial_number itm)) = Some (M + int k + 1)"
    using M0 by simp
  then have "M + int k + 1 \<in> set (parsed_suffixes inventory_no prefix items)"
    using in_parsed_suffixes [OF assms(1,2) sw] by blast
  then have "M + int k + 1 \<le> M"
    using max_serial_num_bounds assms(3) by blast
  then show False by simp
qed

lemma new_serials_distinct:
  assumes "0 \<le> m" and "length (digits (nat (m + int n))) \<le> MAX_STR_DIGITS"
  shows "distinct (map (\<lambda>k. prefix @ zfill 3 (digits (nat (m + int k + 1)))) [0..<n])"
proof -
  have "inj_on (\<lambda>k. prefix @ zfill 3 (digits (nat (m + int k + 1)))) (set [0..<n])"
  proof (rule inj_onI)
    fix x y
    assume x: "x \<in> set [0..<n]" and y: "y \<in> set [0..<n]"
      and "prefix @ zfill 3 (digits (nat (m + int x + 1)))
           = prefix @ zfill 3 (digits (nat (m + int y + 1)))"
    then have e: "py_int (zfill 3 (digits (nat (m + int x + 1))))
        = py_int (zfill 3 (digits (nat (m + int y + 1))))" by simp
    have "nat (m + int x + 1) \<le> nat (m + int n)" using x assms(1) by simp
    then have lx: "length (digits (nat (m + int x + 1))) \<le> MAX_STR_DIGITS"
      using length_digits_mono assms(2) order_trans by blast
    have "nat (m + int y + 1) \<le> nat (m + int n)" using y assms(1) by simp
    then have ly: "length (digits (nat (m + int y + 1))) \<le> MAX_STR_DIGITS"
      using length_digits_mono assms(2) order_trans by blast
    show "x = y"
      using e assms(1) by (simp add: py_int_zfill_digits [OF lx] py_int_zfill_digits [OF ly])
  qed
  then show ?thesis by (simp add: distinct_map)
qed

text \<open>
  Claim C5, as stated, fails on the number M. The code takes the maximum from 0 upwards,
  so a suffix that parses to a negative number never lowers it: in a store whose only
  Arduino item is ARD-5 the maximum parsed suffix is -5, and the claim's first serial
  would be ARD followed by the padded -4, that is ARD-04; the import makes ARD001.
\<close>

theorem negative_suffix_counterexample:
  "parsed_suffixes 1 ''ARD'' (mock_items store_negative_suffix) = [- 5]
   \<and> spec_max_suffix 1 ''ARD'' (mock_items store_negative_suffix) = - 5
   \<and> fmt_03d (- 5 + 1) = Inr ''-04''
   \<and> map serial_number (mock_items (snd (bulk_import_inventory store_negative_suffix
         [\<lparr>row_component_name = Some (CStr ''Arduino''), row_quantity = Some (CInt 1),
           row_description = None\<rparr>])))
       = [''ARD-5'', ''ARD001'']"
  by code_simp

text \<open>
  Claim C5, amended. Take a row whose three cells pass the conversions of lines 890 to
  892 (the name and the description are strings or absent, the quantity converts with
  \<open>int\<close>), whose stripped name is not empty and ASCII, and whose quantity N is
  positive, on a store whose inventory names are ASCII. Let X be the inventory the row is
  booked on, \<open>prefix\<close> the serial prefix of the name, and M the larger of 0 and the
  maximum of the numbers parsed from the suffixes of the existing items of inventory X
  whose serial starts with the prefix (a suffix that does not parse is left out; M is 0
  if none parses, and also if all that parse are negative). If M + N has at most 4300
  decimal digits, the import of the row raises nothing, appends exactly N items,
  Available and of inventory X, with the serials \<open>prefix + f"{M+1:03d}"\<close> to
  \<open>prefix + f"{M+N:03d}"\<close> in this order, and counts N items. Each of these numbers is
  written with at least three digits and reads back as itself; the new serials are
  pairwise distinct and none of them is the serial of an existing item of inventory X.
  Importing 5 of Arduino when ARD001 to ARD003 exist yields ARD004 to ARD008.
\<close>

theorem generated_serials:
  assumes "cell_strip (row_component_name row) = Inr component_name"
    and "cell_int (row_quantity row) = Inr quantity"
    and "cell_strip (row_description row) = Inr descr"
    and "component_name \<noteq> []" and "0 < quantity"
    and "is_ascii component_name"
    and "\<forall>iv \<in> set (mock_inventory d). is_ascii (inv_name iv)"
    and "target_inventory d component_name = X"
    and "serial_prefix component_name = prefix"
    and "max 0 (spec_max_suffix X prefix (mock_items d)) = M"
    and "length (digits (nat (M + quantity))) \<le> MAX_STR_DIGITS"
  shows "fst (import_row (d, inventory_created, items_created) row) = None
     \<and> mock_items (fst (snd (import_row (d, inventory_created, items_created) row))) =
           mock_items d @
             map (\<lambda>k. \<lparr>i_id = int (length (mock_items d)) + int k + 1,
                        serial_number = prefix @ zfill 3 (digits (nat (M + int k + 1))),
                        status = Available, inventory_id = X\<rparr>) [0..<nat quantity]
     \<and> snd (snd (snd (import_row (d, inventory_created, items_created) row)))
         = items_created + quantity
     \<and> 0 \<le> M
     \<and> (\<forall>n \<in> set (parsed_suffixes X prefix (mock_items d)). n \<le> M)
     \<and> (\<forall>k < nat quantity.
           fmt_03d (M + int k + 1) = Inr (zfill 3 (digits (nat (M + int k + 1))))
           \<and> py_int (zfill 3 (digits (nat (M + int k + 1)))) = Some (M + int k + 1)
           \<and> 3 \<le> length (zfill 3 (digits (nat (M + int k + 1)))))
     \<and> distinct (map (\<lambda>k. prefix @ zfill 3 (digits (nat (M + int k + 1)))) [0..<nat quantity])
     \<and> (\<forall>itm \<in> set (mock_items d). inventory_id itm = X \<longrightarrow>
           (\<forall>k < nat quantity.
              serial_number itm \<noteq> prefix @ zfill 3 (digits (nat (M + int k + 1)))))
     \<and> map serial_number (mock_items (snd (bulk_import_inventory store_three_arduinos
           [\<lparr>row_component_name = Some (CStr ''Arduino''), row_quantity = Some (CInt 5),
             row_description = None\<rparr>])))
         = [''ARD001'', ''ARD002'', ''ARD003'', ''ARD004'', ''ARD005'', ''ARD006'', ''ARD007'',
            ''ARD008'']"
proof -
  have Mn: "max_serial_num X prefix (mock_items d) = M"
    using assms(10) by (simp add: max_serial_num_spec)
  have b: "0 \<le> M \<and> (\<forall>n \<in> set (parsed_suffixes X prefix (mock_items d)). n \<le> M)"
    using max_serial_num_bounds [of X prefix "mock_items d"] Mn by simp
  have M0: "0 \<le> M" using b by blast
  have q: "int (nat quantity) = quantity" using assms(5) by simp
  have lenq: "length (digits (nat (M + int (nat quantity)))) \<le> MAX_STR_DIGITS"
    using assms(11) by (simp only: q)
  have lk: "length (digits (nat (M + int k + 1))) \<le> MAX_STR_DIGITS" if "k < nat quantity" for k
  proof -
    have "nat (M + int k + 1) \<le> nat (M + quantity)" using that M0 by simp
    then show ?thesis
      using length_digits_mono assms(11) order_trans by blast
  qed
  have ap: "append_items X prefix M (mock_items d) [0..<nat quantity] =
     (None, mock_items d @
        map (\<lambda>k. \<lparr>i_id = int (length (mock_items d)) + int k + 1,
                   serial_number = prefix @ zfill 3 (digits (nat (M + int k + 1))),
                   status = Available, inventory_id = X\<rparr>) [0..<nat quantity])"
    by (rule append_items_range [OF M0 lenq])
  have ir: "import_row (d, inventory_created, items_created) row
      = book_row (d, inventory_created, items_created) component_name quantity descr"
    by (rule import_row_booked [OF assms(1-5)])
  have a0: "fst (import_row (d, inventory_created, items_created) row) = None"
    by (simp add: ir book_row_eq assms(8,9) Mn ap)
  have a: "mock_items (fst (snd (import_row (d, inventory_created, items_created) row))) =
           mock_items d @
             map (\<lambda>k. \<lparr>i_id = int (length (mock_items d)) + int k + 1,
                        serial_number = prefix @ zfill 3 (digits (nat (M + int k + 1))),
                        status = Available, inventory_id = X\<rparr>) [0..<nat quantity]"
    by (simp add: ir book_row_eq assms(8,9) Mn ap)
  have c: "snd (snd (snd (import_row (d, inventory_created, items_created) row)))
         = items_created + quantity"
    using assms(5) by (simp add: ir book_row_eq assms(8,9) Mn ap)
  have f: "\<forall>k < nat quantity.
           fmt_03d (M + int k + 1) = Inr (zfill 3 (digits (nat (M + int k + 1))))
           \<and> py_int (zfill 3 (digits (nat (M + int k + 1)))) = Some (M + int k + 1)
           \<and> 3 \<le> length (zfill 3 (digits (nat (M + int k + 1))))"
  proof (intro allI impI)
    fix k
    assume k: "k < nat quantity"
    have "py_int (zfill 3 (digits (nat (M + int k + 1)))) = Some (int (nat (M + int k + 1)))"
      by (rule py_int_zfill_digits [OF lk [OF k]])
    then show "fmt_03d (M + int k + 1) = Inr (zfill 3 (digits (nat (M + int k + 1))))
           \<and> py_int (zfill 3 (digits (nat (M + int k + 1)))) = Some (M + int k + 1)
           \<and> 3 \<le> length (zfill 3 (digits (nat (M + int k + 1))))"
      using M0 lk [OF k] by (simp add: fmt_03d_nonneg length_zfill)
  qed
  have di: "distinct (map (\<lambda>k. prefix @ zfill 3 (digits (nat (M + int k + 1)))) [0..<nat quantity])"
    by (rule new_serials_distinct [OF M0 lenq])
  have nc: "\<forall>itm \<in> set (mock_items d). inventory_id itm = X \<longrightarrow>
           (\<forall>k < nat quantity.
              serial_number itm \<noteq> prefix @ zfill 3 (digits (nat (M + int k + 1))))"
    using new_serial_not_taken [OF _ _ Mn lk] by blast
  have ex: "map serial_number (mock_items (snd (bulk_import_inventory store_three_arduinos
           [\<lparr>row_component_name = Some (CStr ''Arduino''), row_quantity = Some (CInt 5),
             row_description = None\<rparr>])))
         = [''ARD001'', ''ARD002'', ''ARD003'', ''ARD004'', ''ARD005'', ''ARD006'', ''ARD007'',
            ''ARD008'']"
    by code_simp
  show ?thesis
    by (rule conjI [OF a0 conjI [OF a conjI [OF c conjI [OF conjunct1 [OF b]
          conjI [OF conjunct2 [OF b] conjI [OF f conjI [OF di conjI [OF nc ex]]]]]]]])
qed

theorem generated_serials_witness:
  "target_inventory store_three_arduinos ''Arduino'' = 1
   \<and> serial_prefix ''Arduino'' = ''ARD''
   \<and> max 0 (spec_max_suffix 1 ''ARD'' (mock_items store_three_arduinos)) = 3
   \<and> fst (import_row (store_three_arduinos, 0, 0)
         \<lparr>row_component_name = Some (CStr ''Arduino''), row_quantity = Some (CInt 5),
           row_description = None\<rparr>) = None
   \<and> mock_items (fst (snd (import_row (store_three_arduinos, 0, 0)
         \<lparr>row_component_name = Some (CStr ''Arduino''), row_quantity = Some (CInt 5),
           row_description = None\<rparr>))) =
       mock_items store_three_arduinos @
         [\<lparr>i_id = 4, serial_number = ''ARD004'', status = Available, inventory_id = 1\<rparr>,
          \<lparr>i_id = 5, serial_number = ''ARD005'', status = Available, inventory_id = 1\<rparr>,
          \<lparr>i_id = 6, serial_number = ''ARD006'', status = Available, inventory_id = 1\<rparr>,
          \<lparr>i_id = 7, serial_number = ''ARD007'', status = Available, inventory_id = 1\<rparr>,
          \<lparr>i_id = 8, serial_number = ''ARD008'', status = Available, inventory_id = 1\<rparr>]"
proof -
  let ?row = "\<lparr>row_component_name = Some (CStr ''Arduino''), row_quantity = Some (CInt 5),
           row_description = None\<rparr>"
  have h1: "cell_strip (row_component_name ?row) = Inr ''Arduino''"
    by code_simp
  have h2: "cell_int (row_quantity ?row) = Inr 5"
    by (simp add: cell_int_def)
  have h3: "cell_strip (row_description ?row) = Inr []"
    by (simp add: cell_strip_def)
  have h4: "''Arduino'' \<noteq> []" and h5: "(0::int) < 5"
    by simp_all
  have h6: "is_ascii ''Arduino''"
    by (simp add: is_ascii_def)
  have h7: "\<forall>iv \<in> set (mock_inventory store_three_arduinos). is_ascii (inv_name iv)"
    by (simp add: store_three_arduinos_def init_mock_data_def is_ascii_def)
  have h8: "target_inventory store_three_arduinos ''Arduino'' = 1"
    by code_simp
  have h9: "serial_prefix ''Arduino'' = ''ARD''"
    by code_simp
  have h10: "max 0 (spec_max_suffix 1 ''ARD'' (mock_items store_three_arduinos)) = 3"
    by code_simp
  have h11: "length (digits (nat (3 + 5))) \<le> MAX_STR_DIGITS"
    by code_simp
  have len: "length (mock_items store_three_arduinos) = 3"
    by (simp add: store_three_arduinos_def init_mock_data_def)
  have new: "map (\<lambda>k. \<lparr>i_id = int 3 + int k + 1,
                        serial_number = ''ARD'' @ zfill 3 (digits (nat (3 + int k + 1))),
                        status = Available, inventory_id = 1\<rparr>) [0..<nat 5] =
         [\<lparr>i_id = 4, serial_number = ''ARD004'', status = Available, inventory_id = 1\<rparr>,
          \<lparr>i_id = 5, serial_number = ''ARD005'', status = Available, inventory_id = 1\<rparr>,
          \<lparr>i_id = 6, serial_number = ''ARD006'', status = Available, inventory_id = 1\<rparr>,
          \<lparr>i_id = 7, serial_number = ''ARD007'', status = Available, inventory_id = 1\<rparr>,
          \<lparr>i_id = 8, serial_number = ''ARD008'', status = Available, inventory_id = 1\<rparr>]"
    by code_simp
  note g = generated_serials [OF h1 h2 h3 h4 h5 h6 h7 h8 h9 h10 h11, of 0 0]
  show ?thesis
    using g [THEN conjunct1] g [THEN conjunct2, THEN conjunct1]
    unfolding len new
    by (simp add: h8 h9 h10)
qed

subsection \<open>Bulk import: skipped rows\<close>

lemma import_rows_skipped_row:
  assumes "cell_strip (row_component_name row) = Inr component_name"
    and "cell_int (row_quantity row) = Inr quantity"
    and "cell_strip (row_description row) = Inr descr"
    and "component_name = [] \<or> quantity \<le> 0"
  shows "import_rows acc (rows1 @ row # rows2) = import_rows acc (rows1 @ rows2)"
proof (induction rows1 arbitrary: acc)
  case Nil
  then show ?case by (simp add: import_row_skipped [OF assms])
next
  case (Cons r rows1)
  then show ?case by (simp split: prod.splits option.splits)
qed

text \<open>
  Claim C8 describes what the skip test of line 894 is there for, and the code misses it
  for the rows that \<open>_handle_csv_import\<close> really passes. The three conversions of lines
  890 to 892 run before the test and outside any \<open>try\<close>, and \<open>strip\<close> exists on
  strings only: a row with quantity 0 whose description cell is empty (NaN in the pandas
  record) raises \<open>AttributeError\<close> instead of being skipped, and so does a row whose
  name cell is empty. The same row with the description key absent is skipped, with
  both counts 0 and the store unchanged.
\<close>

theorem skipped_row_raises:
  "bulk_import_inventory (init_mock_data 0)
      [\<lparr>row_component_name = Some (CStr ''Arduino''), row_quantity = Some (CInt 0),
        row_description = Some CNaN\<rparr>]
     = (Inl AttributeError, init_mock_data 0)
   \<and> bulk_import_inventory (init_mock_data 0)
      [\<lparr>row_component_name = Some CNaN, row_quantity = Some (CInt 5),
        row_description = None\<rparr>]
     = (Inl AttributeError, init_mock_data 0)
   \<and> bulk_import_inventory (init_mock_data 0)
      [\<lparr>row_component_name = Some (CStr ''Arduino''), row_quantity = Some (CInt 0),
        row_description = None\<rparr>]
     = (Inr (0, 0), init_mock_data 0)"
  by (simp add: bulk_import_inventory_def import_row_def cell_strip_def cell_int_def)

subsection \<open>The status invariant\<close>

text \<open>
  Claim C1, as stated, fails. The store the program starts from breaks the invariant:
  in the fixture RPI001 (item 5) is Available although the line of the Active
  transaction 2 references it. And an operation breaks it from a store that satisfies
  it: after ARD001 and ARD002 have been issued together as transaction 3, returning
  ARD001 reports True, closes the whole transaction and leaves ARD002 Issued with no
  line of an Active transaction.
\<close>

theorem status_invariant_counterexample:
  "\<not> issued_iff_one_active_line (init_mock_data 0)
   \<and> issued_iff_one_active_line store_two_item_loan
   \<and> fst (return_item True (\<lambda>k. False) 3 store_two_item_loan 1 3) = True
   \<and> \<not> issued_iff_one_active_line (snd (return_item True (\<lambda>k. False) 3 store_two_item_loan 1 3))"
  by code_simp

lemma lines_match_status_imp:
  "lines_match_status d \<Longrightarrow> issued_iff_one_active_line d"
  by (simp add: lines_match_status_def issued_iff_one_active_line_def)

lemma foldl_issue_one_items:
  "mock_items (foldl (issue_one tid) d ids) =
     foldl (\<lambda>xs i. set_item_status i Issued xs) (mock_items d) ids"
  by (induction ids arbitrary: d) (simp_all add: issue_one_def)

lemma map_i_id_foldl_set:
  "map i_id (foldl (\<lambda>xs i. set_item_status i st xs) xs ids) = map i_id xs"
  by (induction ids arbitrary: xs) (simp_all add: map_i_id_set_item_status)

lemma line_active_append_new:
  "ti_transaction_id l \<noteq> t_id T \<Longrightarrow> line_active (ts @ [T]) l = line_active ts l"
  by (auto simp: line_active_def)

lemma line_active_new:
  "ti_transaction_id l = t_id T \<Longrightarrow> t_status T = Active \<Longrightarrow> line_active (ts @ [T]) l"
  by (auto simp: line_active_def)

lemma filter_old_lines:
  assumes "\<forall>l \<in> set ls. ti_transaction_id l \<noteq> t_id T"
  shows "filter (\<lambda>l. ti_item_id l = j \<and> line_active (ts @ [T]) l) ls
           = filter (\<lambda>l. ti_item_id l = j \<and> line_active ts l) ls"
  by (rule filter_cong) (use assms line_active_append_new in auto)

lemma filter_new_lines:
  assumes "t_id T = tid" and "t_status T = Active"
  shows "length (filter (\<lambda>l. ti_item_id l = j \<and> line_active (ts @ [T]) l)
           (map (\<lambda>(k, i). \<lparr>ti_id = int k + 1, ti_transaction_id = tid, ti_item_id = i\<rparr>)
              (enumerate m ids)))
         = length (filter (\<lambda>i. i = j) ids)"
proof (induction ids arbitrary: m)
  case Nil
  then show ?case by simp
next
  case (Cons a ids)
  have "line_active (ts @ [T]) \<lparr>ti_id = int m + 1, ti_transaction_id = tid, ti_item_id = a\<rparr>"
    using assms by (simp add: line_active_new)
  then show ?case
    using Cons.IH [of "Suc m"] by simp
qed

lemma count_distinct:
  "distinct ids \<Longrightarrow> length (filter (\<lambda>i. i = j) ids) = (if j \<in> set ids then 1 else 0)"
  by (induction ids) auto

lemma new_lines_props:
  "l \<in> set (map (\<lambda>(k, i). \<lparr>ti_id = int k + 1, ti_transaction_id = tid, ti_item_id = i\<rparr>)
              (enumerate m ids))
   \<Longrightarrow> ti_transaction_id l = tid \<and> ti_item_id l \<in> set ids"
  by (auto simp: in_set_enumerate_eq)

lemma distinct_ids_by_position:
  "ids_by_position d \<Longrightarrow> distinct (map i_id (mock_items d)) \<and> distinct (map t_id (mock_transactions d))"
  by (simp add: ids_by_position_def distinct_map inj_on_def)

lemma id_in_range:
  assumes "ids_by_position d" and "itm \<in> set (mock_items d)"
  shows "1 \<le> i_id itm \<and> i_id itm \<le> int (length (mock_items d))"
proof -
  have "i_id itm \<in> set (map i_id (mock_items d))" using assms(2) by simp
  then have "i_id itm \<in> set (map int [1..<Suc (length (mock_items d))])"
    using assms(1) unfolding ids_by_position_def by metis
  then show ?thesis by (auto simp del: upt_Suc)
qed

lemma notin_map:
  "a \<notin> set (map f xs) \<Longrightarrow> y \<in> set xs \<Longrightarrow> f y \<noteq> a"
  by auto

lemma at_most_one_eq:
  "length xs \<le> 1 \<Longrightarrow> a \<in> set xs \<Longrightarrow> b \<in> set xs \<Longrightarrow> a = b"
  by (cases xs) auto

lemma set_item_status_cases:
  assumes "distinct (map i_id xs)" and "x' \<in> set (set_item_status iid st xs)"
  shows "(i_id x' = iid \<and> status x' = st) \<or> (i_id x' \<noteq> iid \<and> x' \<in> set xs)"
  using assms
proof (induction xs)
  case Nil
  then show ?case by simp
next
  case (Cons x xs)
  show ?case
  proof (cases "i_id x = iid")
    case True
    then have "x' = x\<lparr>status := st\<rparr> \<or> x' \<in> set xs" using Cons.prems(2) by simp
    moreover have "iid \<notin> set (map i_id xs)" using Cons.prems(1) True by simp
    then have "\<forall>y \<in> set xs. i_id y \<noteq> iid" using notin_map by fast
    ultimately show ?thesis using True by auto
  next
    case False
    then have "x' = x \<or> x' \<in> set (set_item_status iid st xs)" using Cons.prems(2) by simp
    then show ?thesis
    proof
      assume "x' = x"
      then show ?thesis using False by simp
    next
      assume "x' \<in> set (set_item_status iid st xs)"
      moreover have "distinct (map i_id xs)" using Cons.prems(1) by simp
      ultimately show ?thesis using Cons.IH by auto
    qed
  qed
qed

lemma foldl_set_item_status_cases:
  assumes "distinct (map i_id xs)"
    and "x' \<in> set (foldl (\<lambda>xs i. set_item_status i st xs) xs ids)"
  shows "(i_id x' \<in> set ids \<and> status x' = st) \<or> (i_id x' \<notin> set ids \<and> x' \<in> set xs)"
  using assms
proof (induction ids arbitrary: xs)
  case Nil
  then show ?case by simp
next
  case (Cons a ids)
  have d: "distinct (map i_id (set_item_status a st xs))"
    using Cons.prems(1) by (simp add: map_i_id_set_item_status)
  have m: "x' \<in> set (foldl (\<lambda>xs i. set_item_status i st xs) (set_item_status a st xs) ids)"
    using Cons.prems(2) by simp
  from Cons.IH [OF d m]
  show ?case
  proof
    assume "i_id x' \<in> set ids \<and> status x' = st"
    then show ?thesis by simp
  next
    assume h: "i_id x' \<notin> set ids \<and> x' \<in> set (set_item_status a st xs)"
    then have "x' \<in> set (set_item_status a st xs)" by simp
    from set_item_status_cases [OF Cons.prems(1) this] h
    show ?thesis by auto
  qed
qed

lemma line_active_close_transaction:
  "distinct (map t_id ts) \<Longrightarrow>
     line_active (close_transaction now tid ts) l
       = (ti_transaction_id l \<noteq> tid \<and> line_active ts l)"
proof (induction ts)
  case Nil
  then show ?case by (simp add: line_active_def)
next
  case (Cons t ts)
  show ?case
  proof (cases "t_id t = tid")
    case True
    then have "tid \<notin> set (map t_id ts)" using Cons.prems by simp
    then have "\<forall>y \<in> set ts. t_id y \<noteq> tid" using notin_map by fast
    then show ?thesis using True by (auto simp: line_active_def)
  next
    case False
    have "line_active (t # close_transaction now tid ts) l
            = ((t_id t = ti_transaction_id l \<and> t_status t = Active)
               \<or> line_active (close_transaction now tid ts) l)"
      by (simp add: line_active_def)
    also have "\<dots> = ((t_id t = ti_transaction_id l \<and> t_status t = Active)
               \<or> (ti_transaction_id l \<noteq> tid \<and> line_active ts l))"
      using Cons by simp
    also have "\<dots> = (ti_transaction_id l \<noteq> tid \<and> line_active (t # ts) l)"
      using False by (auto simp: line_active_def)
    finally show ?thesis using False by simp
  qed
qed

lemma id_exists:
  assumes "ids_by_position d" and "1 \<le> j" and "j \<le> int (length (mock_items d))"
  shows "\<exists>itm \<in> set (mock_items d). i_id itm = j"
proof -
  have "nat j \<in> set [1..<Suc (length (mock_items d))]" using assms(2,3) by (simp del: upt_Suc) arith
  then have "int (nat j) \<in> set (map int [1..<Suc (length (mock_items d))])" unfolding set_map by (rule imageI)
  then have "j \<in> set (map i_id (mock_items d))"
    using assms(1,2) unfolding ids_by_position_def by simp
  then show ?thesis by auto
qed

lemma close_preserves:
  assumes ibp: "ids_by_position d" and lms: "lines_match_status d"
    and one: "only_line_of d iid tid" and st: "st \<noteq> Issued"
  shows "store_consistent
           (d\<lparr>mock_items := set_item_status iid st (mock_items d),
              mock_transactions := close_transaction now tid (mock_transactions d)\<rparr>)"
proof -
  let ?d' = "d\<lparr>mock_items := set_item_status iid st (mock_items d),
              mock_transactions := close_transaction now tid (mock_transactions d)\<rparr>"
  let ?ts = "mock_transactions d"
  let ?ls = "mock_transaction_items d"
  have dist: "distinct (map i_id (mock_items d))" "distinct (map t_id ?ts)"
    using distinct_ids_by_position [OF ibp] by simp_all
  have ibp': "ids_by_position ?d'"
    using ibp unfolding ids_by_position_def
    by (simp add: map_i_id_set_item_status map_t_id_close_transaction
          length_set_item_status length_close_transaction del: upt_Suc)
  have refs: "active_refs ?d' j =
      filter (\<lambda>l. ti_item_id l = j \<and> ti_transaction_id l \<noteq> tid \<and> line_active ?ts l) ?ls" for j
    by (simp add: active_refs_def line_active_close_transaction [OF dist(2)])
  obtain l0 where l0: "l0 \<in> set ?ls" "ti_transaction_id l0 = tid"
    using one unfolding only_line_of_def by blast
  have l0i: "ti_item_id l0 = iid" using one l0 unfolding only_line_of_def by blast
  have act: "line_active ?ts l0"
    using one l0(2) unfolding only_line_of_def line_active_def by simp
  have l0ref: "l0 \<in> set (active_refs d iid)"
    using l0(1) l0i act by (simp add: active_refs_def)
  have rng: "1 \<le> iid \<and> iid \<le> int (length (mock_items d))"
    using ibp l0(1) l0i unfolding ids_by_position_def by blast
  then obtain itm where itm: "itm \<in> set (mock_items d)" "i_id itm = iid"
    using id_exists [OF ibp] by blast
  have le1: "length (active_refs d iid) \<le> 1"
    using lms itm unfolding lines_match_status_def by (metis le_numeral_extra(4) zero_le_one)
  have other: "active_refs ?d' j = active_refs d j" if "j \<noteq> iid" for j
  proof -
    have "\<forall>l \<in> set ?ls. ti_item_id l = j \<longrightarrow> ti_transaction_id l \<noteq> tid"
      using one that unfolding only_line_of_def by blast
    then have "filter (\<lambda>l. ti_item_id l = j \<and> ti_transaction_id l \<noteq> tid \<and> line_active ?ts l) ?ls
        = filter (\<lambda>l. ti_item_id l = j \<and> line_active ?ts l) ?ls"
      by (intro filter_cong) auto
    then show ?thesis unfolding refs by (simp add: active_refs_def)
  qed
  have self: "active_refs ?d' iid = []"
  proof -
    have "\<not> (ti_item_id l = iid \<and> ti_transaction_id l \<noteq> tid \<and> line_active ?ts l)"
      if "l \<in> set ?ls" for l
    proof
      assume h: "ti_item_id l = iid \<and> ti_transaction_id l \<noteq> tid \<and> line_active ?ts l"
      then have "l \<in> set (active_refs d iid)" using that by (simp add: active_refs_def)
      from at_most_one_eq [OF le1 this l0ref] have "l = l0" .
      then show False using h l0(2) by simp
    qed
    then show ?thesis unfolding refs by (simp add: filter_empty_conv)
  qed
  have lms': "lines_match_status ?d'"
    unfolding lines_match_status_def
  proof
    fix x' assume "x' \<in> set (mock_items ?d')"
    then have "x' \<in> set (set_item_status iid st (mock_items d))" by simp
    from set_item_status_cases [OF dist(1) this]
    show "length (active_refs ?d' (i_id x')) = (if status x' = Issued then 1 else 0)"
    proof
      assume "i_id x' = iid \<and> status x' = st"
      then show ?thesis using self st by simp
    next
      assume h: "i_id x' \<noteq> iid \<and> x' \<in> set (mock_items d)"
      then have "active_refs ?d' (i_id x') = active_refs d (i_id x')" using other by simp
      moreover have "length (active_refs d (i_id x')) = (if status x' = Issued then 1 else 0)"
        using lms h unfolding lines_match_status_def by blast
      ultimately show ?thesis by simp
    qed
  qed
  show ?thesis unfolding store_consistent_def using ibp' lms' by simp
qed

lemma create_transaction_items:
  "mock_items (snd (create_transaction now d sid ids issuer)) =
     foldl (\<lambda>xs i. set_item_status i Issued xs) (mock_items d) ids"
  by (simp add: create_transaction_def Let_def foldl_issue_one_items)

lemma create_transaction_transactions:
  "\<exists>T. mock_transactions (snd (create_transaction now d sid ids issuer)) = mock_transactions d @ [T]
       \<and> t_id T = int (length (mock_transactions d)) + 1 \<and> t_status T = Active"
  by (simp add: create_transaction_def Let_def foldl_issue_one_transactions)

lemma create_transaction_lines:
  "mock_transaction_items (snd (create_transaction now d sid ids issuer)) =
     mock_transaction_items d @
       map (\<lambda>(k, i). \<lparr>ti_id = int k + 1,
                       ti_transaction_id = int (length (mock_transactions d)) + 1, ti_item_id = i\<rparr>)
         (enumerate (length (mock_transaction_items d)) ids)"
  by (simp add: create_transaction_def Let_def foldl_issue_one_lines)

lemma issue_preserves:
  assumes ibp: "ids_by_position d" and lms: "lines_match_status d"
    and dist: "distinct ids"
    and avail: "\<forall>i \<in> set ids. \<exists>itm \<in> set (mock_items d). i_id itm = i \<and> status itm \<noteq> Issued"
    and items: "mock_items d' = foldl (\<lambda>xs i. set_item_status i Issued xs) (mock_items d) ids"
    and ts: "mock_transactions d' = mock_transactions d @ [T]"
    and tid: "t_id T = int (length (mock_transactions d)) + 1"
    and tst: "t_status T = Active"
    and ls: "mock_transaction_items d' = mock_transaction_items d @
       map (\<lambda>(k, i). \<lparr>ti_id = int k + 1, ti_transaction_id = t_id T, ti_item_id = i\<rparr>)
         (enumerate m ids)"
  shows "store_consistent d'"
proof -
  let ?new = "map (\<lambda>(k, i). \<lparr>ti_id = int k + 1, ti_transaction_id = t_id T, ti_item_id = i\<rparr>)
         (enumerate m ids)"
  let ?ts = "mock_transactions d"
  let ?ls = "mock_transaction_items d"
  have di: "distinct (map i_id (mock_items d))"
    using distinct_ids_by_position [OF ibp] by simp
  have bounds: "1 \<le> ti_item_id l \<and> ti_item_id l \<le> int (length (mock_items d))
            \<and> 1 \<le> ti_transaction_id l \<and> ti_transaction_id l \<le> int (length ?ts)"
    if "l \<in> set ?ls" for l
    using ibp that unfolding ids_by_position_def by blast
  have old: "\<forall>l \<in> set ?ls. ti_transaction_id l \<noteq> t_id T"
  proof
    fix l assume "l \<in> set ?ls"
    from bounds [OF this] show "ti_transaction_id l \<noteq> t_id T" unfolding tid by simp
  qed
  have cnt: "length (active_refs d' j) = length (active_refs d j) + (if j \<in> set ids then 1 else 0)"
    for j
  proof -
    have "active_refs d' j =
        filter (\<lambda>l. ti_item_id l = j \<and> line_active (?ts @ [T]) l) ?ls
        @ filter (\<lambda>l. ti_item_id l = j \<and> line_active (?ts @ [T]) l) ?new"
      unfolding active_refs_def ts ls filter_append by (rule refl)
    also have "filter (\<lambda>l. ti_item_id l = j \<and> line_active (?ts @ [T]) l) ?ls = active_refs d j"
      unfolding active_refs_def by (rule filter_old_lines [OF old])
    finally have "length (active_refs d' j) = length (active_refs d j)
        + length (filter (\<lambda>l. ti_item_id l = j \<and> line_active (?ts @ [T]) l) ?new)"
      by simp
    also have "length (filter (\<lambda>l. ti_item_id l = j \<and> line_active (?ts @ [T]) l) ?new)
        = length (filter (\<lambda>i. i = j) ids)"
      by (rule filter_new_lines [OF refl tst])
    also have "\<dots> = (if j \<in> set ids then 1 else 0)"
      by (rule count_distinct [OF dist])
    finally show ?thesis .
  qed
  have mi: "map i_id (mock_items d') = map i_id (mock_items d)"
    unfolding items by (rule map_i_id_foldl_set)
  have li: "length (mock_items d') = length (mock_items d)"
    using arg_cong [OF mi, of length] by simp
  have i1: "map i_id (mock_items d') = map int [1..<Suc (length (mock_items d'))]"
    unfolding li mi using ibp unfolding ids_by_position_def by blast
  have mt: "map t_id ?ts = map int [1..<Suc (length ?ts)]"
    using ibp unfolding ids_by_position_def by blast
  have i2: "map t_id (mock_transactions d') = map int [1..<Suc (length (mock_transactions d'))]"
    unfolding ts using mt tid by simp
  have i3: "1 \<le> ti_item_id l \<and> ti_item_id l \<le> int (length (mock_items d'))
            \<and> 1 \<le> ti_transaction_id l \<and> ti_transaction_id l \<le> int (length (mock_transactions d'))"
    if "l \<in> set (mock_transaction_items d')" for l
  proof -
    have "l \<in> set ?ls \<or> l \<in> set ?new" using that unfolding ls by simp
    then show ?thesis
    proof
      assume "l \<in> set ?ls"
      from bounds [OF this] show ?thesis unfolding li ts by simp
    next
      assume "l \<in> set ?new"
      from new_lines_props [OF this]
      have p: "ti_transaction_id l = t_id T" "ti_item_id l \<in> set ids" by simp_all
      from avail p(2) obtain itm where "itm \<in> set (mock_items d)" "i_id itm = ti_item_id l"
        by blast
      with id_in_range [OF ibp, of itm]
      have "1 \<le> ti_item_id l \<and> ti_item_id l \<le> int (length (mock_items d))" by simp
      then show ?thesis unfolding li ts p(1) tid by simp
    qed
  qed
  have ibp': "ids_by_position d'"
    unfolding ids_by_position_def using i1 i2 i3 by blast
  have lms': "lines_match_status d'"
    unfolding lines_match_status_def
  proof
    fix x' assume "x' \<in> set (mock_items d')"
    then have "x' \<in> set (foldl (\<lambda>xs i. set_item_status i Issued xs) (mock_items d) ids)"
      unfolding items .
    from foldl_set_item_status_cases [OF di this]
    show "length (active_refs d' (i_id x')) = (if status x' = Issued then 1 else 0)"
    proof
      assume h: "i_id x' \<in> set ids \<and> status x' = Issued"
      then obtain itm where itm: "itm \<in> set (mock_items d)" "i_id itm = i_id x'"
        "status itm \<noteq> Issued"
        using avail by blast
      have "length (active_refs d (i_id itm)) = 0"
        using lms itm(1,3) unfolding lines_match_status_def by simp
      then show ?thesis unfolding cnt using h itm(2) by simp
    next
      assume h: "i_id x' \<notin> set ids \<and> x' \<in> set (mock_items d)"
      then have "length (active_refs d (i_id x')) = (if status x' = Issued then 1 else 0)"
        using lms unfolding lines_match_status_def by blast
      then show ?thesis unfolding cnt using h by simp
    qed
  qed
  show ?thesis unfolding store_consistent_def using ibp' lms' by simp
qed

lemma create_transaction_preserves:
  assumes "store_consistent d" and "distinct ids"
    and "\<forall>i \<in> set ids. \<exists>itm \<in> set (mock_items d). i_id itm = i \<and> status itm \<noteq> Issued"
  shows "store_consistent (snd (create_transaction now d sid ids issuer))"
proof -
  obtain T where T: "mock_transactions (snd (create_transaction now d sid ids issuer))
        = mock_transactions d @ [T]"
      "t_id T = int (length (mock_transactions d)) + 1" "t_status T = Active"
    using create_transaction_transactions by blast
  have ls: "mock_transaction_items (snd (create_transaction now d sid ids issuer)) =
     mock_transaction_items d @
       map (\<lambda>(k, i). \<lparr>ti_id = int k + 1, ti_transaction_id = t_id T, ti_item_id = i\<rparr>)
         (enumerate (length (mock_transaction_items d)) ids)"
    unfolding T(2) by (rule create_transaction_lines)
  have c: "ids_by_position d" "lines_match_status d"
    using assms(1) unfolding store_consistent_def by simp_all
  show ?thesis
    by (rule issue_preserves [OF c assms(2,3) create_transaction_items T ls])
qed

lemma active_refs_items [simp]: "active_refs (d\<lparr>mock_items := xs\<rparr>) j = active_refs d j"
  by (simp add: active_refs_def)

lemma active_refs_inventory [simp]: "active_refs (d\<lparr>mock_inventory := v\<rparr>) j = active_refs d j"
  by (simp add: active_refs_def)

lemma store_consistent_inventory [simp]:
  "store_consistent (d\<lparr>mock_inventory := v\<rparr>) = store_consistent d"
  by (simp add: store_consistent_def ids_by_position_def lines_match_status_def del: upt_Suc)

lemma append_item_preserves:
  assumes sc: "store_consistent d"
    and xid: "i_id x = int (length (mock_items d)) + 1" and xst: "status x \<noteq> Issued"
  shows "store_consistent (d\<lparr>mock_items := mock_items d @ [x]\<rparr>)"
proof -
  have ibp: "ids_by_position d" and lms: "lines_match_status d"
    using sc unfolding store_consistent_def by simp_all
  have bounds: "1 \<le> ti_item_id l \<and> ti_item_id l \<le> int (length (mock_items d))
            \<and> 1 \<le> ti_transaction_id l \<and> ti_transaction_id l \<le> int (length (mock_transactions d))"
    if "l \<in> set (mock_transaction_items d)" for l
    using ibp that unfolding ids_by_position_def by blast
  have mi: "map i_id (mock_items d) = map int [1..<Suc (length (mock_items d))]"
    and mt: "map t_id (mock_transactions d) = map int [1..<Suc (length (mock_transactions d))]"
    using ibp unfolding ids_by_position_def by blast+
  have i1: "map i_id (mock_items d @ [x]) = map int [1..<Suc (length (mock_items d @ [x]))]"
    using mi xid by simp
  have ibp': "ids_by_position (d\<lparr>mock_items := mock_items d @ [x]\<rparr>)"
    unfolding ids_by_position_def
  proof (intro conjI ballI)
    show "map i_id (mock_items (d\<lparr>mock_items := mock_items d @ [x]\<rparr>)) =
      map int [1..<Suc (length (mock_items (d\<lparr>mock_items := mock_items d @ [x]\<rparr>)))]"
      using i1 by simp
    show "map t_id (mock_transactions (d\<lparr>mock_items := mock_items d @ [x]\<rparr>)) =
      map int [1..<Suc (length (mock_transactions (d\<lparr>mock_items := mock_items d @ [x]\<rparr>)))]"
      using mt by simp
  next
    fix l assume "l \<in> set (mock_transaction_items (d\<lparr>mock_items := mock_items d @ [x]\<rparr>))"
    then have l: "l \<in> set (mock_transaction_items d)" by simp
    from bounds [OF l]
    show "1 \<le> ti_item_id l" by simp
    from bounds [OF l]
    show "ti_item_id l \<le> int (length (mock_items (d\<lparr>mock_items := mock_items d @ [x]\<rparr>)))" by simp
    from bounds [OF l]
    show "1 \<le> ti_transaction_id l" by simp
    from bounds [OF l]
    show "ti_transaction_id l
            \<le> int (length (mock_transactions (d\<lparr>mock_items := mock_items d @ [x]\<rparr>)))" by simp
  qed
  have none: "active_refs d (i_id x) = []"
  proof -
    have "ti_item_id l \<noteq> i_id x" if "l \<in> set (mock_transaction_items d)" for l
      using bounds [OF that] unfolding xid by simp
    then show ?thesis unfolding active_refs_def by (simp add: filter_empty_conv)
  qed
  have lms': "lines_match_status (d\<lparr>mock_items := mock_items d @ [x]\<rparr>)"
    unfolding lines_match_status_def
  proof
    fix y assume "y \<in> set (mock_items (d\<lparr>mock_items := mock_items d @ [x]\<rparr>))"
    then have "y \<in> set (mock_items d) \<or> y = x" by auto
    then show "length (active_refs (d\<lparr>mock_items := mock_items d @ [x]\<rparr>) (i_id y))
           = (if status y = Issued then 1 else 0)"
    proof
      assume "y \<in> set (mock_items d)"
      then show ?thesis using lms unfolding lines_match_status_def by simp
    next
      assume "y = x"
      then show ?thesis using none xst by simp
    qed
  qed
  show ?thesis unfolding store_consistent_def using ibp' lms' by simp
qed

lemma append_items_preserves:
  "store_consistent (d\<lparr>mock_items := items\<rparr>) \<Longrightarrow>
     store_consistent (d\<lparr>mock_items := snd (append_items n p m items rest)\<rparr>)"
proof (induction rest arbitrary: items)
  case Nil
  then show ?case by simp
next
  case (Cons i rest)
  show ?case
  proof (cases "fmt_03d (m + int i + 1)")
    case (Inl e)
    then show ?thesis using Cons.prems by simp
  next
    case (Inr number)
    let ?x = "\<lparr>i_id = int (length items) + 1, serial_number = p @ number,
               status = Available, inventory_id = n\<rparr>"
    have "store_consistent ((d\<lparr>mock_items := items\<rparr>)\<lparr>mock_items :=
              mock_items (d\<lparr>mock_items := items\<rparr>) @ [?x]\<rparr>)"
      by (rule append_item_preserves [OF Cons.prems]) simp_all
    then have "store_consistent (d\<lparr>mock_items := items @ [?x]\<rparr>)" by simp
    from Cons.IH [OF this] show ?thesis using Inr by simp
  qed
qed

lemma book_row_preserves:
  assumes "store_consistent d"
  shows "store_consistent (fst (snd (book_row (d, c1, c2) component_name quantity descr)))"
proof -
  let ?v = "case find (\<lambda>iv. upper (inv_name iv) = upper component_name) (mock_inventory d) of
               Some e \<Rightarrow> add_total_qty component_name quantity (mock_inventory d)
             | None \<Rightarrow> mock_inventory d @
                  [\<lparr>inv_id = target_inventory d component_name, inv_name = component_name,
                    total_qty = quantity, course = None, description = Some descr\<rparr>]"
  have "store_consistent ((d\<lparr>mock_inventory := ?v\<rparr>)\<lparr>mock_items := mock_items d\<rparr>)"
    using assms by simp
  from append_items_preserves [OF this]
  show ?thesis unfolding book_row_eq by simp
qed

lemma import_row_preserves:
  assumes "store_consistent (fst acc)"
  shows "store_consistent (fst (snd (import_row acc row)))"
proof -
  obtain d c1 c2 where acc: "acc = (d, c1, c2)" by (cases acc) auto
  have sc: "store_consistent d" using assms acc by simp
  show ?thesis
    unfolding import_row_def acc
    using sc book_row_preserves [OF sc]
    by (simp split: sum.splits)
qed

lemma import_rows_preserves:
  "store_consistent (fst acc) \<Longrightarrow> store_consistent (fst (snd (import_rows acc rows)))"
proof (induction rows arbitrary: acc)
  case Nil
  then show ?case by simp
next
  case (Cons row rows)
  have sc: "store_consistent (fst (snd (import_row acc row)))"
    by (rule import_row_preserves [OF Cons.prems])
  obtain e acc' where r: "import_row acc row = (e, acc')" by (cases "import_row acc row") auto
  have sc': "store_consistent (fst acc')" using sc r by simp
  show ?case
  proof (cases e)
    case None
    then show ?thesis using r Cons.IH [OF sc'] by simp
  next
    case (Some a)
    then show ?thesis using r sc' by simp
  qed
qed

lemma bulk_import_inventory_preserves:
  assumes "store_consistent d"
  shows "store_consistent (snd (bulk_import_inventory d csv_data))"
proof -
  have sc: "store_consistent (fst (snd (import_rows (d, 0, 0) csv_data)))"
    by (rule import_rows_preserves) (simp add: assms)
  obtain e d' c1 c2 where r: "import_rows (d, 0, 0) csv_data = (e, (d', c1, c2))"
    by (cases "import_rows (d, 0, 0) csv_data") auto
  show ?thesis
    using sc unfolding bulk_import_inventory_def r
    by (cases e) simp_all
qed

lemma create_transaction_on_in_process:
  "create_transaction_on True raises answer_id now d sid ids issuer
     = create_transaction now d sid ids issuer"
  by (simp add: create_transaction_on_def)

text \<open>
  Claim C1, amended. Call an in-process store consistent when its identifiers are the
  positions in the lists (as \<open>len(...) + 1\<close> hands them out), every line names an
  existing item and an existing transaction, an Issued item has exactly one line of an
  Active transaction and any other item has none. A consistent store satisfies the
  invariant, and it stays consistent, and so keeps the invariant,
  \<^item> under \<open>create_transaction\<close>, when the item ids are distinct and each names an
    item that is not Issued (what the cart of the issue view holds);
  \<^item> under \<open>return_item\<close> and \<open>report_damaged\<close>, when the transaction is Active and
    the item is the only one on its lines;
  \<^item> under \<open>bulk_import_inventory\<close>, for every list of rows, also when an exception
    ends the import half way.
  On the remote backend the three methods of the client leave the in-process lists as they
  are; the rows they write live in the service.
\<close>

theorem status_invariant_kept:
  assumes "store_consistent d"
  shows "issued_iff_one_active_line d
   \<and> (distinct item_ids
        \<and> (\<forall>i \<in> set item_ids. \<exists>itm \<in> set (mock_items d). i_id itm = i \<and> status itm \<noteq> Issued)
      \<longrightarrow> store_consistent
            (snd (create_transaction_on True raises answer_id now d student_id item_ids issuer_id))
          \<and> issued_iff_one_active_line
            (snd (create_transaction_on True raises answer_id now d student_id item_ids issuer_id)))
   \<and> (only_line_of d item_id transaction_id
      \<longrightarrow> store_consistent (snd (return_item True raises now d item_id transaction_id))
          \<and> issued_iff_one_active_line (snd (return_item True raises now d item_id transaction_id))
          \<and> store_consistent (snd (report_damaged True raises now d item_id transaction_id))
          \<and> issued_iff_one_active_line
              (snd (report_damaged True raises now d item_id transaction_id)))
   \<and> store_consistent (snd (bulk_import_inventory d csv_data))
   \<and> issued_iff_one_active_line (snd (bulk_import_inventory d csv_data))
   \<and> snd (create_transaction_on False raises answer_id now d student_id item_ids issuer_id) = d
   \<and> snd (return_item False raises now d item_id transaction_id) = d
   \<and> snd (report_damaged False raises now d item_id transaction_id) = d"
proof -
  have imp: "issued_iff_one_active_line e" if "store_consistent e" for e
    using that unfolding store_consistent_def by (simp add: lines_match_status_imp)
  have c: "ids_by_position d" "lines_match_status d"
    using assms unfolding store_consistent_def by simp_all
  have p1: "issued_iff_one_active_line d" by (rule imp [OF assms])
  have p2: "store_consistent
      (snd (create_transaction_on True raises answer_id now d student_id item_ids issuer_id))"
    if "distinct item_ids \<and>
        (\<forall>i \<in> set item_ids. \<exists>itm \<in> set (mock_items d). i_id itm = i \<and> status itm \<noteq> Issued)"
    unfolding create_transaction_on_in_process
    using that by (intro create_transaction_preserves [OF assms]) simp_all
  have p3: "store_consistent (snd (return_item True raises now d item_id transaction_id))"
    if "only_line_of d item_id transaction_id"
    unfolding return_item_in_process return_item_mock_def snd_conv
    by (rule close_preserves [OF c that]) simp
  have p4: "store_consistent (snd (report_damaged True raises now d item_id transaction_id))"
    if "only_line_of d item_id transaction_id"
    unfolding report_damaged_in_process report_damaged_mock_def snd_conv
    by (rule close_preserves [OF c that]) simp
  have p5: "store_consistent (snd (bulk_import_inventory d csv_data))"
    by (rule bulk_import_inventory_preserves [OF assms])
  have p6: "snd (create_transaction_on False raises answer_id now d student_id item_ids issuer_id) = d"
    by (simp add: create_transaction_on_def)
  have p7: "snd (return_item False raises now d item_id transaction_id) = d"
    by (simp add: return_item_def)
  have p8: "snd (report_damaged False raises now d item_id transaction_id) = d"
    by (simp add: report_damaged_def)
  show ?thesis
    using p1 p2 p3 p4 p5 p6 p7 p8 imp by blast
qed

text \<open>
  On the fixture after RPI001 has been returned, which is consistent: issuing ARD001 and
  ARD002 together, returning or reporting ARD003 under its transaction 1, and importing
  two more Arduinos each keep the invariant.
\<close>

theorem status_invariant_kept_witness:
  "store_consistent store_after_return
   \<and> issued_iff_one_active_line store_after_return
   \<and> issued_iff_one_active_line
       (snd (create_transaction_on True (\<lambda>k. False) None 3 store_after_return 1 [1, 2] (Some 1)))
   \<and> issued_iff_one_active_line (snd (return_item True (\<lambda>k. False) 3 store_after_return 3 1))
   \<and> issued_iff_one_active_line (snd (report_damaged True (\<lambda>k. False) 3 store_after_return 3 1))
   \<and> issued_iff_one_active_line
       (snd (bulk_import_inventory store_after_return
          [\<lparr>row_component_name = Some (CStr ''Arduino''), row_quantity = Some (CInt 2),
            row_description = Some (CStr ''board'')\<rparr>]))
   \<and> snd (return_item False (\<lambda>k. False) 3 store_after_return 3 1) = store_after_return"
proof -
  have h1: "store_consistent store_after_return" by code_simp
  have h2: "distinct [1, 2 :: int]
        \<and> (\<forall>i \<in> set [1, 2]. \<exists>itm \<in> set (mock_items store_after_return).
              i_id itm = i \<and> status itm \<noteq> Issued)"
    by code_simp
  have h3: "only_line_of store_after_return 3 1" by code_simp
  note t = status_invariant_kept [OF h1, where item_ids = "[1, 2]" and item_id = 3
      and transaction_id = 1 and raises = "\<lambda>k. False" and answer_id = None and now = 3
      and student_id = 1 and issuer_id = "Some 1"
      and csv_data = "[\<lparr>row_component_name = Some (CStr ''Arduino''), row_quantity = Some (CInt 2),
            row_description = Some (CStr ''board'')\<rparr>]"]
  note c1 = t [THEN conjunct1]
  note c2 = t [THEN conjunct2, THEN conjunct1, THEN mp, OF h2, THEN conjunct2]
  note a3 = t [THEN conjunct2, THEN conjunct2, THEN conjunct1, THEN mp, OF h3]
  note c3 = a3 [THEN conjunct2, THEN conjunct1]
  note c4 = a3 [THEN conjunct2, THEN conjunct2, THEN conjunct2]
  note r = t [THEN conjunct2, THEN conjunct2, THEN conjunct2]
  note c5 = r [THEN conjunct2, THEN conjunct1]
  note c6 = r [THEN conjunct2, THEN conjunct2, THEN conjunct2, THEN conjunct1]
  show ?thesis
    by (intro conjI) (rule h1, rule c1, rule c2, rule c3, rule c4, rule c5, rule c6)
qed

end
